(* ===== verification/Prelude.thy ===== *)
theory Prelude
  imports Main
begin

text \<open>
  Shared vocabulary of the development of \<^verbatim>\<open>src/Offline_Attendance.py\<close>:
  the types that name instants and calendar days, the exceptions that can
  escape the Streamlit script, the collection \<open>store_simps\<close> into which the
  store theory puts the characteristic equations of its queries, and generic
  lemmas on filters and counts that the component proofs share.
\<close>

section \<open>Types of the model\<close>

text \<open>
  Python's aware \<^verbatim>\<open>datetime\<close> values compare as absolute instants; they are
  modelled as seconds since the Unix epoch (\<open>int\<close>, as Python's integers
  are unbounded). A calendar day in Korean Standard Time, the value that
  \<^verbatim>\<open>strftime("%Y-%m-%d")\<close> prints and that the table stores in
  \<^verbatim>\<open>attend_date\<close>, is the day number since the epoch.
\<close>

type_synonym instant = int
type_synonym day = int

text \<open>
  Exceptions that end a run of the script: \<open>NameError\<close> when the loop
  variable \<^verbatim>\<open>i\<close> was never bound, and \<open>DBError\<close> for whatever escapes
  \<^verbatim>\<open>run_query\<close>/\<^verbatim>\<open>run_tx\<close> when the database fails (the exact exception class,
  \<^verbatim>\<open>UnboundLocalError\<close> or a driver error, is not distinguished).
\<close>

datatype py_error = NameError | DBError

named_theorems store_simps "characteristic equations of the store queries"

section \<open>Generic lemmas on filters and counts\<close>

lemma length_filter_append_one [simp]:
  "length (filter P (xs @ [x])) = length (filter P xs) + (if P x then 1 else 0)"
  by simp

lemma filter_map_if_update:
  "filter P (map (\<lambda>r. if Q r then f r else r) xs) =
     map (\<lambda>r. if Q r then f r else r) (filter (\<lambda>r. if Q r then P (f r) else P r) xs)"
  by (induction xs) auto

lemma length_filter_le_one_distinct:
  "distinct (map g xs) \<Longrightarrow> length (filter (\<lambda>x. g x = k) xs) \<le> 1"
  by (induction xs) (auto simp: filter_empty_conv image_iff)

lemma length_filter_mono_pred:
  "(\<And>x. P x \<Longrightarrow> Q x) \<Longrightarrow> length (filter P xs) \<le> length (filter Q xs)"
  by (induction xs) auto

lemma filter_map_cancel_aid:
  "filter (\<lambda>r. \<not> c r) (map (\<lambda>r. if k r = a then f r else r) xs) =
   filter (\<lambda>r. \<not> c r \<and> k r \<noteq> a) xs"
  if "\<And>r. c (f r)"
  using that by (induction xs) auto

lemma map_of_snoc_fresh:
  "map_of xs k = None \<Longrightarrow> map_of (xs @ [(k, v)]) = (map_of xs)(k \<mapsto> v)"
  by (rule ext) (auto simp: map_add_def split: option.splits)

lemma map_of_filter_key_neq:
  "map_of (filter (\<lambda>p. fst p \<noteq> k) xs) = (map_of xs)(k := None)"
  by (induction xs) (auto simp: fun_upd_twist)

lemma distinct_map_inj:
  "distinct (map f xs) \<Longrightarrow> x \<in> set xs \<Longrightarrow> y \<in> set xs \<Longrightarrow> f x = f y \<Longrightarrow> x = y"
  by (auto simp: distinct_map dest: inj_onD)

lemma find_append_list:
  "find P (xs @ ys) = (case find P xs of None \<Rightarrow> find P ys | Some x \<Rightarrow> Some x)"
  by (induction xs) auto

lemma find_map_list: "find P (map f xs) = map_option f (find (P \<circ> f) xs)"
  by (induction xs) auto

lemma distinct_map_filter_weaken:
  "distinct (map g (filter P xs)) \<Longrightarrow> (\<And>x. x \<in> set xs \<Longrightarrow> Q x \<Longrightarrow> P x) \<Longrightarrow>
   distinct (map g (filter Q xs))"
proof (induction xs)
  case Nil
  then show ?case by simp
next
  case (Cons x xs)
  then show ?case by (auto split: if_splits)
qed

end
