(* ===== verification/Schedule.thy ===== *)
theory Schedule
  imports Prelude
begin

text \<open>
  The session selector: lines 44--66 of \<^verbatim>\<open>src/Offline_Attendance.py\<close>.
  The script reads the clock (\<^verbatim>\<open>datetime.utcnow().astimezone(timezone_kst)\<close>),
  scans the configured \<^verbatim>\<open>date_list\<close> with a \<^verbatim>\<open>for\<close> loop that
  \<^verbatim>\<open>continue\<close>s on past entries and \<^verbatim>\<open>break\<close>s on the first future one, and
  then decides from the loop variable \<^verbatim>\<open>i\<close> whether there is no session, the
  next session is not open yet, or registration for \<^verbatim>\<open>i\<close>'s day is open.
\<close>

section \<open>Clock and calendar\<close>

definition day_seconds :: int where
  "day_seconds = 24 * 3600"

definition kst_offset :: int where
  "kst_offset = 9 * 3600"

text \<open>
  \<^verbatim>\<open>datetime.utcnow()\<close> is a naive value holding the UTC wall clock;
  \<^verbatim>\<open>astimezone\<close> reads a naive value as the host's local time. On a host whose
  UTC offset is \<open>host_offset\<close> the instant the script works with is therefore
  the true instant minus that offset.
\<close>

definition now_kst :: "int \<Rightarrow> instant \<Rightarrow> instant" where
  "now_kst host_offset utc = utc - host_offset"

text \<open>\<^verbatim>\<open>i.strftime("%Y-%m-%d")\<close> of a KST datetime: its KST calendar day.\<close>

definition kst_day :: "instant \<Rightarrow> day" where
  "kst_day t = (t + kst_offset) div day_seconds"

text \<open>The configuration constants, 2023-03-07 and 2023-03-09 at 11:00 KST.\<close>

definition date_list :: "instant list" where
  "date_list = [1678154400, 1678327200]"

definition student_limit :: nat where
  "student_limit = 50"

section \<open>The scan loop\<close>

text \<open>
  \<^verbatim>\<open>for i in date_list: if i < now: continue; if i > now: break\<close>.
  The first argument is the loop variable before the iteration (\<open>None\<close> while
  unbound); an entry equal to \<open>now\<close> neither continues nor breaks, so the
  loop goes on past it.
\<close>

fun scan_dates :: "instant option \<Rightarrow> instant list \<Rightarrow> instant \<Rightarrow> instant option" where
  "scan_dates i [] now = i"
| "scan_dates i (d # ds) now =
     (if d < now then scan_dates (Some d) ds now
      else if now < d then Some d
      else scan_dates (Some d) ds now)"

datatype session_state = NoSession | NextSession day | OpenSession day

text \<open>
  Lines 60--66: \<^verbatim>\<open>date_string = i.strftime(...)\<close> raises \<open>NameError\<close> when the
  list was empty; otherwise the three titles.
\<close>

definition select_session :: "instant list \<Rightarrow> instant \<Rightarrow> py_error + session_state" where
  "select_session dates now =
     (case scan_dates None dates now of
        None \<Rightarrow> Inl NameError
      | Some i \<Rightarrow> Inr (if i < now then NoSession
                      else if now + day_seconds < i then NextSession (kst_day i)
                      else OpenSession (kst_day i)))"

section \<open>The selector's contract\<close>

text \<open>
  The contract of the specification (section 4.1): the first entry that is
  not strictly before \<open>now\<close> is the selected session; none selected means
  no session; the session is open when it starts within 24 hours.
\<close>

definition current_session :: "instant list \<Rightarrow> instant \<Rightarrow> session_state" where
  "current_session dates now =
     (case find (\<lambda>d. \<not> d < now) dates of
        None \<Rightarrow> NoSession
      | Some d \<Rightarrow> if now + day_seconds < d then NextSession (kst_day d)
                  else OpenSession (kst_day d))"

section \<open>The loop against the contract\<close>

text \<open>
  Characteristic facts of the scan: its result is an entry of the list (or the
  initial value of the loop variable); it stops at the first entry not before
  \<open>now\<close> unless that entry equals \<open>now\<close>; when every entry is past it ends on
  the last one.
\<close>

lemma scan_dates_Some_mem:
  "scan_dates i ds now = Some x \<Longrightarrow> x \<in> set ds \<or> i = Some x"
  by (induction i ds now rule: scan_dates.induct) (auto split: if_splits)

lemma scan_dates_None_iff:
  "scan_dates i ds now = None \<longleftrightarrow> ds = [] \<and> i = None"
  by (induction i ds now rule: scan_dates.induct) auto

lemma scan_dates_find_Some:
  "find (\<lambda>d. \<not> d < now) ds = Some d \<Longrightarrow> d \<noteq> now \<Longrightarrow> scan_dates i ds now = Some d"
  by (induction ds arbitrary: i) (auto split: if_splits)

lemma scan_dates_find_None:
  "find (\<lambda>d. \<not> d < now) ds = None \<Longrightarrow>
   scan_dates i ds now = (if ds = [] then i else Some (last ds))"
  by (induction ds arbitrary: i) (auto split: if_splits)

lemma find_not_before_Some:
  "find (\<lambda>d. \<not> d < now) ds = Some d \<Longrightarrow> d \<in> set ds \<and> (now::instant) \<le> d"
  by (auto simp: find_Some_iff not_less)

lemma select_session_selected:
  "find (\<lambda>d. \<not> d < now) dates = Some d \<Longrightarrow> d \<noteq> now \<Longrightarrow>
   select_session dates now =
     Inr (if now + day_seconds < d then NextSession (kst_day d) else OpenSession (kst_day d))"
  using find_not_before_Some [of now dates d]
  by (simp add: select_session_def scan_dates_find_Some)

lemmas schedule_consts = day_seconds_def kst_offset_def kst_day_def date_list_def now_kst_def

text \<open>
  C13: Where no configured session starts exactly at \<open>now\<close>, the scan loop and
  the three-way decision of lines 54--66 compute exactly the selector of the
  specification (first entry not before \<open>now\<close>; open within 24 hours).
\<close>

theorem select_session_refines:
  "now \<notin> set dates \<Longrightarrow> dates \<noteq> [] \<Longrightarrow> select_session dates now = Inr (current_session dates now)"
proof (cases "find (\<lambda>d. \<not> d < now) dates")
  case None
  assume ne: "dates \<noteq> []"
  from None have "\<forall>d\<in>set dates. d < now" by (simp add: find_None_iff)
  with ne have "last dates < now" by simp
  with ne None show ?thesis
    by (simp add: select_session_def current_session_def scan_dates_find_None)
next
  case (Some d)
  assume "now \<notin> set dates"
  with find_not_before_Some [OF Some] have "d \<noteq> now" by auto
  with Some show ?thesis
    by (simp add: select_session_selected current_session_def)
qed

text \<open>
  C14: When every configured session lies strictly in the past (and the list
  is not empty), the page shows "no registered lecture".
\<close>

theorem select_session_past:
  "dates \<noteq> [] \<Longrightarrow> \<forall>d\<in>set dates. d < now \<Longrightarrow> select_session dates now = Inr NoSession"
proof -
  assume ne: "dates \<noteq> []" and past: "\<forall>d\<in>set dates. d < now"
  then have "find (\<lambda>d. \<not> d < now) dates = None" by (simp add: find_None_iff)
  with ne have "scan_dates None dates now = Some (last dates)" by (simp add: scan_dates_find_None)
  moreover from ne past have "last dates < now" by simp
  ultimately show ?thesis by (simp add: select_session_def)
qed

text \<open>
  C15: When the first session not before \<open>now\<close> starts more than 24 hours
  later, the page announces it as the next lecture and offers no form.
\<close>

theorem select_session_not_yet_open:
  "find (\<lambda>d. \<not> d < now) dates = Some d \<Longrightarrow> now + day_seconds < d \<Longrightarrow>
   select_session dates now = Inr (NextSession (kst_day d))"
  using select_session_selected [of now dates d] by (simp add: day_seconds_def)

text \<open>
  C16: A session starting exactly 24 hours after \<open>now\<close> is open for
  registration: the window boundary is inclusive.
\<close>

theorem select_session_boundary_open:
  "find (\<lambda>d. \<not> d < now) dates = Some d \<Longrightarrow> d = now + day_seconds \<Longrightarrow>
   select_session dates now = Inr (OpenSession (kst_day d))"
  using select_session_selected [of now dates d] by (simp add: day_seconds_def)

text \<open>
  C17: Whenever the page opens registration for a day, that day is the KST day
  of a configured session that starts no earlier than \<open>now\<close> and at most 24
  hours after it.
\<close>

theorem select_session_open_bounds:
  "select_session dates now = Inr (OpenSession k) \<Longrightarrow>
   \<exists>i\<in>set dates. k = kst_day i \<and> now \<le> i \<and> i \<le> now + day_seconds"
  by (force simp: select_session_def dest: scan_dates_Some_mem split: option.splits if_splits)

text \<open>
  C18: A session starting exactly at \<open>now\<close> is skipped by the loop when a later
  session follows (the loop neither continues nor breaks on equality), so the
  page announces the later session although the specification selects the
  current one and opens it.
\<close>

theorem select_session_exact_now_diverges:
  "select_session [t, t + 2 * day_seconds] t = Inr (NextSession (kst_day (t + 2 * day_seconds))) \<and>
   current_session [t, t + 2 * day_seconds] t = OpenSession (kst_day t)"
  by (simp add: select_session_def current_session_def day_seconds_def)

text \<open>
  C19: The script fails with NameError exactly when the configured list is
  empty (the loop variable is never bound); the specification asks for
  "no session" there.
\<close>

theorem select_session_error:
  "select_session dates now = Inl e \<longleftrightarrow> dates = [] \<and> e = NameError"
  by (auto simp: select_session_def scan_dates_None_iff split: option.splits)

text \<open>
  C20: The clock reading of lines 44--46 depends on the host's time zone. On
  a host whose UTC offset is \<open>h > 0\<close> (any zone east of Greenwich, KST among
  them) the script's \<open>now\<close> lags the true time by \<open>h\<close>, so for every session
  \<open>i\<close>: at the true opening time \<open>i - 24 h\<close> a correct clock opens
  registration while the host still announces the session as upcoming, and
  \<open>h\<close> seconds after the session has started a correct clock shows no session
  while the host still accepts registrations.
\<close>

theorem select_session_host_offset:
  "0 < h \<Longrightarrow>
   select_session [i] (now_kst 0 (i - day_seconds)) = Inr (OpenSession (kst_day i)) \<and>
   select_session [i] (now_kst h (i - day_seconds)) = Inr (NextSession (kst_day i)) \<and>
   select_session [i] (now_kst 0 (i + h)) = Inr NoSession \<and>
   select_session [i] (now_kst h (i + h)) = Inr (OpenSession (kst_day i))"
  by (simp add: select_session_def now_kst_def day_seconds_def)

section \<open>Witnesses\<close>

theorem select_session_refines_witness:
  "select_session date_list 1678071600 = Inr (current_session date_list 1678071600) \<and>
   current_session date_list 1678071600 = OpenSession 19423"
proof -
  have "(1678071600::int) \<notin> set date_list" "date_list \<noteq> []" by (simp_all add: date_list_def)
  from select_session_refines [OF this] show ?thesis
    by (simp add: current_session_def schedule_consts)
qed

theorem select_session_past_witness:
  "select_session date_list 1678400000 = Inr NoSession"
  by (rule select_session_past) (simp_all add: date_list_def)

theorem select_session_not_yet_open_witness:
  "select_session date_list 1677000000 = Inr (NextSession 19423)"
proof -
  have "find (\<lambda>d. \<not> d < 1677000000) date_list = Some 1678154400" by (simp add: date_list_def)
  from select_session_not_yet_open [OF this] show ?thesis by (simp add: schedule_consts)
qed

theorem select_session_boundary_open_witness:
  "select_session date_list (1678154400 - 86400) = Inr (OpenSession 19423)"
proof -
  have "find (\<lambda>d. \<not> d < 1678154400 - 86400) date_list = Some 1678154400" by (simp add: date_list_def)
  from select_session_boundary_open [OF this] show ?thesis by (simp add: schedule_consts)
qed

theorem select_session_open_bounds_witness:
  "\<exists>i\<in>set date_list. 19423 = kst_day i \<and> 1678071600 \<le> i \<and> i \<le> 1678071600 + day_seconds"
proof -
  have "select_session date_list 1678071600 = Inr (OpenSession 19423)"
    by (simp add: select_session_def schedule_consts)
  then show ?thesis by (rule select_session_open_bounds)
qed

theorem select_session_host_offset_witness:
  "select_session [1678154400] (now_kst 0 (1678154400 - day_seconds)) = Inr (OpenSession (kst_day 1678154400)) \<and>
   select_session [1678154400] (now_kst 32400 (1678154400 - day_seconds)) = Inr (NextSession (kst_day 1678154400)) \<and>
   select_session [1678154400] (now_kst 0 (1678154400 + 32400)) = Inr NoSession \<and>
   select_session [1678154400] (now_kst 32400 (1678154400 + 32400)) = Inr (OpenSession (kst_day 1678154400))"
  by (rule select_session_host_offset) simp

end
