(* ===== verification/Store.thy ===== *)
theory Store
  imports Prelude
begin

text \<open>
  The registration store: the PostgreSQL table \<^verbatim>\<open>apply\<close> of
  \<^verbatim>\<open>src/Offline_Attendance.py\<close> and the five SQL statements the script sends to
  it (the count of line 69, the duplicate check of line 88, the insert of
  line 93, the lookup of lines 121/141, the cancel update of line 148), each
  as the function on the table that the statement computes, together with the
  two connection helpers \<^verbatim>\<open>run_query\<close> and \<^verbatim>\<open>run_tx\<close> (lines 15--40). The table
  is a list of rows in insertion order with the next value of the serial
  column \<^verbatim>\<open>aid\<close>. The theory proves the queries' characteristic equations, the
  store invariants (fresh distinct \<^verbatim>\<open>aid\<close>s, at most one active row per student
  and day, the per-day count within a limit) and that insert and cancel
  refine the abstract map of active registrations. The functions are the
  meaning of the statements for quote-free inputs (see \<open>quote_free\<close>).
\<close>

section \<open>The table\<close>

record apply_row =
  aid :: nat
  sname :: string
  sid :: string
  attend_date :: day
  apply_timestamp :: instant
  secret :: string
  canceled :: bool

record db =
  rows :: "apply_row list"
  next_aid :: nat

text \<open>A fresh table: no rows, the serial sequence at its start value 1.\<close>

definition empty_db :: db where
  "empty_db = \<lparr>rows = [], next_aid = 1\<rparr>"

section \<open>The statements\<close>

text \<open>
  Each statement is an f-string that pastes the user's input between single
  quotes. The functions below are what a statement computes when the pasted
  values contain no quote character (\<open>quote_free\<close>); theory \<open>Query\<close>
  proves this from the statement texts and a model of how the database reads
  them, and shows what an input with a quote makes the database do instead.
  The properties of the page that depend on the statements' meaning are
  stated for quote-free inputs.
\<close>

definition sq :: char where
  "sq = CHR 0x27"

definition quote_free :: "string \<Rightarrow> bool" where
  "quote_free v \<longleftrightarrow> sq \<notin> set v"

text \<open>Line 69: \<^verbatim>\<open>SELECT count(*) FROM apply WHERE attend_date = d and canceled = False\<close>.\<close>

definition applycount :: "day \<Rightarrow> db \<Rightarrow> nat" where
  "applycount d db = length (filter (\<lambda>r. attend_date r = d \<and> \<not> canceled r) (rows db))"

text \<open>Line 88: \<^verbatim>\<open>SELECT * FROM apply WHERE sid = s and attend_date = d and canceled = False\<close>.\<close>

definition check_apply :: "string \<Rightarrow> day \<Rightarrow> db \<Rightarrow> apply_row list" where
  "check_apply s d db = filter (\<lambda>r. sid r = s \<and> attend_date r = d \<and> \<not> canceled r) (rows db)"

text \<open>
  Lines 121 and 141: the same filter with \<^verbatim>\<open>and secret = p\<close> added. The
  selected columns are those of \<open>lookup_cols\<close>, the table the lookup shows.
\<close>

definition check_secret :: "string \<Rightarrow> day \<Rightarrow> string \<Rightarrow> db \<Rightarrow> apply_row list" where
  "check_secret s d p db =
     filter (\<lambda>r. sid r = s \<and> attend_date r = d \<and> \<not> canceled r \<and> secret r = p) (rows db)"

definition lookup_cols :: "apply_row \<Rightarrow> nat \<times> string \<times> string \<times> day" where
  "lookup_cols r = (aid r, sname r, sid r, attend_date r)"

text \<open>
  Line 93: \<^verbatim>\<open>INSERT INTO apply (sname, sid, attend_date, apply_timestamp, secret)\<close>;
  the table supplies \<^verbatim>\<open>aid\<close> from its serial sequence and \<^verbatim>\<open>canceled\<close> from its
  default \<open>False\<close>.
\<close>

definition new_row :: "nat \<Rightarrow> string \<Rightarrow> string \<Rightarrow> day \<Rightarrow> instant \<Rightarrow> string \<Rightarrow> apply_row" where
  "new_row a n s d ts p =
     \<lparr>aid = a, sname = n, sid = s, attend_date = d, apply_timestamp = ts, secret = p,
      canceled = False\<rparr>"

definition apply_insert :: "string \<Rightarrow> string \<Rightarrow> day \<Rightarrow> instant \<Rightarrow> string \<Rightarrow> db \<Rightarrow> db" where
  "apply_insert n s d ts p db =
     db\<lparr>rows := rows db @ [new_row (next_aid db) n s d ts p], next_aid := Suc (next_aid db)\<rparr>"

text \<open>Line 148: \<^verbatim>\<open>UPDATE apply SET canceled = True WHERE aid = a\<close>.\<close>

definition cancel_update :: "nat \<Rightarrow> db \<Rightarrow> db" where
  "cancel_update a db =
     db\<lparr>rows := map (\<lambda>r. if aid r = a then r\<lparr>canceled := True\<rparr> else r) (rows db)\<rparr>"

section \<open>Connections\<close>

text \<open>
  \<^verbatim>\<open>run_query\<close> and \<^verbatim>\<open>run_tx\<close> open a connection per statement. The flag \<open>ok\<close>
  says whether connecting and executing succeed. On failure \<^verbatim>\<open>run_query\<close>
  cannot return its unbound \<^verbatim>\<open>df\<close>, and \<^verbatim>\<open>run_tx\<close> rolls back and then
  commits a closed connection: either way an exception leaves the helper and
  the table is as it was.
\<close>

definition run_query :: "bool \<Rightarrow> (db \<Rightarrow> 'a) \<Rightarrow> db \<Rightarrow> py_error + 'a" where
  "run_query ok q db = (if ok then Inr (q db) else Inl DBError)"

definition run_tx :: "bool \<Rightarrow> (db \<Rightarrow> db) \<Rightarrow> db \<Rightarrow> py_error + db" where
  "run_tx ok stmt db = (if ok then Inr (stmt db) else Inl DBError)"

section \<open>Invariants and the abstract store\<close>

definition aids_fresh :: "db \<Rightarrow> bool" where
  "aids_fresh db \<longleftrightarrow>
     list_all (\<lambda>a. a < next_aid db) (map aid (rows db)) \<and> distinct (map aid (rows db))"

definition active_rows :: "db \<Rightarrow> apply_row list" where
  "active_rows db = filter (\<lambda>r. \<not> canceled r) (rows db)"

definition reg_key :: "apply_row \<Rightarrow> string \<times> day" where
  "reg_key r = (sid r, attend_date r)"

definition active_unique :: "db \<Rightarrow> bool" where
  "active_unique db \<longleftrightarrow> distinct (map reg_key (active_rows db))"

definition within_limit :: "nat \<Rightarrow> db \<Rightarrow> bool" where
  "within_limit lim db \<longleftrightarrow> list_all (\<lambda>r. applycount (attend_date r) db \<le> lim) (rows db)"

text \<open>
  The abstract store of the specification: the active registrations as a map
  from (student ID, day) to the registration record.
\<close>

definition active_regs :: "db \<Rightarrow> (string \<times> day) \<rightharpoonup> apply_row" where
  "active_regs db = map_of (map (\<lambda>r. (reg_key r, r)) (active_rows db))"

section \<open>Characteristic equations\<close>

lemma rows_apply_insert [store_simps]:
  "rows (apply_insert n s d ts p db) = rows db @ [new_row (next_aid db) n s d ts p]"
  by (simp add: apply_insert_def)

lemma next_aid_apply_insert [store_simps]:
  "next_aid (apply_insert n s d ts p db) = Suc (next_aid db)"
  by (simp add: apply_insert_def)

lemma new_row_sel [simp]:
  "aid (new_row a n s d ts p) = a" "sname (new_row a n s d ts p) = n"
  "sid (new_row a n s d ts p) = s" "attend_date (new_row a n s d ts p) = d"
  "apply_timestamp (new_row a n s d ts p) = ts" "secret (new_row a n s d ts p) = p"
  "canceled (new_row a n s d ts p) = False"
  by (simp_all add: new_row_def)

lemma next_aid_cancel_update [store_simps]: "next_aid (cancel_update a db) = next_aid db"
  by (simp add: cancel_update_def)

lemma active_rows_cancel_update [store_simps]:
  "active_rows (cancel_update a db) = filter (\<lambda>r. \<not> canceled r \<and> aid r \<noteq> a) (rows db)"
  by (simp add: active_rows_def cancel_update_def filter_map_cancel_aid)

lemma aids_cancel_update [store_simps]:
  "map aid (rows (cancel_update a db)) = map aid (rows db)"
  unfolding cancel_update_def by (induction "rows db") auto

lemma active_rows_apply_insert [store_simps]:
  "active_rows (apply_insert n s d ts p db) = active_rows db @ [new_row (next_aid db) n s d ts p]"
  by (simp add: active_rows_def apply_insert_def)

lemma applycount_active_rows:
  "applycount d db = length (filter (\<lambda>r. attend_date r = d) (active_rows db))"
  by (simp add: applycount_def active_rows_def filter_filter conj_commute)

lemma applycount_apply_insert [store_simps]:
  "applycount d' (apply_insert n s d ts p db) = applycount d' db + (if d' = d then 1 else 0)"
  by (simp add: applycount_def apply_insert_def)

lemma applycount_cancel_update_le:
  "applycount d (cancel_update a db) \<le> applycount d db"
  unfolding applycount_active_rows active_rows_cancel_update
  unfolding active_rows_def filter_filter
  by (rule length_filter_mono_pred) auto

lemma check_apply_active_rows:
  "check_apply s d db = filter (\<lambda>r. reg_key r = (s, d)) (active_rows db)"
  unfolding check_apply_def active_rows_def reg_key_def filter_filter
  by (rule filter_cong) auto

lemma check_apply_cancel_update [store_simps]:
  "check_apply s d (cancel_update a db) = filter (\<lambda>r. aid r \<noteq> a) (check_apply s d db)"
  unfolding check_apply_active_rows active_rows_cancel_update
  unfolding active_rows_def filter_filter by (rule filter_cong) auto

lemma check_secret_apply_insert [store_simps]:
  "check_secret s' d' p' (apply_insert n s d ts p db) =
     check_secret s' d' p' db @ (if s' = s \<and> d' = d \<and> p' = p then [new_row (next_aid db) n s d ts p] else [])"
  by (auto simp: check_secret_def apply_insert_def)

lemma check_apply_apply_insert [store_simps]:
  "check_apply s' d' (apply_insert n s d ts p db) =
     check_apply s' d' db @ (if s' = s \<and> d' = d then [new_row (next_aid db) n s d ts p] else [])"
  by (auto simp: check_apply_def apply_insert_def)

lemma check_secret_sub:
  "r \<in> set (check_secret s d p db) \<Longrightarrow> r \<in> set (active_rows db) \<and> reg_key r = (s, d)"
  by (auto simp: check_secret_def active_rows_def reg_key_def)

lemma run_query_Inr [store_simps]: "run_query ok q db = Inr x \<longleftrightarrow> ok \<and> x = q db"
  by (auto simp: run_query_def)

lemma run_tx_Inr [store_simps]: "run_tx ok stmt db = Inr db' \<longleftrightarrow> ok \<and> db' = stmt db"
  by (auto simp: run_tx_def)

lemma run_query_Inl [store_simps]: "run_query ok q db = Inl e \<longleftrightarrow> \<not> ok \<and> e = DBError"
  by (auto simp: run_query_def)

lemma run_tx_Inl [store_simps]: "run_tx ok stmt db = Inl e \<longleftrightarrow> \<not> ok \<and> e = DBError"
  by (auto simp: run_tx_def)

section \<open>The store invariants are kept\<close>

lemma aids_fresh_empty: "aids_fresh empty_db"
  by (simp add: aids_fresh_def empty_db_def)

lemma active_unique_empty: "active_unique empty_db"
  by (simp add: active_unique_def active_rows_def empty_db_def)

lemma within_limit_empty: "within_limit lim empty_db"
  by (simp add: within_limit_def empty_db_def)

lemma aids_fresh_apply_insert:
  "aids_fresh db \<Longrightarrow> aids_fresh (apply_insert n s d ts p db)"
  by (auto simp: aids_fresh_def apply_insert_def list_all_iff)

lemma aids_fresh_cancel_update:
  "aids_fresh db \<Longrightarrow> aids_fresh (cancel_update a db)"
  by (simp add: aids_fresh_def aids_cancel_update next_aid_cancel_update)

lemma active_unique_apply_insert:
  "active_unique db \<Longrightarrow> check_apply s d db = [] \<Longrightarrow> active_unique (apply_insert n s d ts p db)"
  by (auto simp: active_unique_def active_rows_apply_insert check_apply_active_rows
        filter_empty_conv reg_key_def)

lemma active_unique_cancel_update:
  "active_unique db \<Longrightarrow> active_unique (cancel_update a db)"
  unfolding active_unique_def active_rows_cancel_update
  by (rule distinct_map_filter_weaken [where P = "\<lambda>r. \<not> canceled r"])
     (simp_all add: active_rows_def)

lemma within_limit_iff: "within_limit lim db \<longleftrightarrow> (\<forall>d. applycount d db \<le> lim)"
proof
  assume w: "within_limit lim db"
  show "\<forall>d. applycount d db \<le> lim"
  proof
    fix d
    show "applycount d db \<le> lim"
    proof (cases "\<exists>r\<in>set (rows db). attend_date r = d")
      case True
      with w show ?thesis by (auto simp: within_limit_def list_all_iff)
    next
      case False
      then have "applycount d db = 0" by (auto simp: applycount_def filter_empty_conv)
      then show ?thesis by simp
    qed
  qed
next
  assume "\<forall>d. applycount d db \<le> lim"
  then show "within_limit lim db" by (simp add: within_limit_def list_all_iff)
qed

lemma within_limit_apply_insert:
  "within_limit lim db \<Longrightarrow> applycount d db < lim \<Longrightarrow> within_limit lim (apply_insert n s d ts p db)"
  by (simp add: within_limit_iff applycount_apply_insert)

lemma within_limit_cancel_update:
  "within_limit lim db \<Longrightarrow> within_limit lim (cancel_update a db)"
  unfolding within_limit_iff using applycount_cancel_update_le order_trans by blast

section \<open>Insert and cancel refine the abstract store\<close>

lemma active_regs_None_iff:
  "active_regs db k = None \<longleftrightarrow> filter (\<lambda>r. reg_key r = k) (active_rows db) = []"
  by (auto simp: active_regs_def map_of_eq_None_iff filter_empty_conv image_iff)

text \<open>
  C21: Inserting a registration for a student and day with no active row
  (the duplicate check of line 88 came back empty) adds exactly that key to
  the abstract map of active registrations, bound to the new row.
\<close>

theorem apply_insert_refines:
  "check_apply s d db = [] \<Longrightarrow>
   active_regs (apply_insert n s d ts p db) = (active_regs db)((s, d) \<mapsto> new_row (next_aid db) n s d ts p)"
proof -
  assume "check_apply s d db = []"
  then have "active_regs db (s, d) = None"
    by (simp add: active_regs_None_iff check_apply_active_rows)
  then show ?thesis
    unfolding active_regs_def active_rows_apply_insert
    by (simp del: map_of_append add: map_of_snoc_fresh reg_key_def)
qed

lemma active_row_by_aid:
  assumes "aids_fresh db" "active_unique db" "r \<in> set (check_secret s d p db)"
    and "x \<in> set (active_rows db)"
  shows "aid x = aid r \<longleftrightarrow> reg_key x = (s, d)"
proof -
  from assms(3) have r: "r \<in> set (active_rows db)" "reg_key r = (s, d)"
    by (auto dest: check_secret_sub)
  have "x = r" if "aid x = aid r"
    using assms(1,4) r(1) that by (auto simp: aids_fresh_def active_rows_def intro: distinct_map_inj)
  moreover have "x = r" if "reg_key x = (s, d)"
    using assms(2,4) r that by (auto simp: active_unique_def intro: distinct_map_inj)
  ultimately show ?thesis using r(2) by auto
qed

text \<open>
  C22: Cancelling the row that the lookup of line 141 found (by its \<^verbatim>\<open>aid\<close>,
  line 148) removes exactly the key (student ID, day) from the abstract map
  of active registrations, in a store whose \<^verbatim>\<open>aid\<close>s are distinct and whose
  active registrations are unique.
\<close>

theorem cancel_update_refines:
  "aids_fresh db \<Longrightarrow> active_unique db \<Longrightarrow> r \<in> set (check_secret s d p db) \<Longrightarrow>
   active_regs (cancel_update (aid r) db) = (active_regs db)((s, d) := None)"
proof -
  assume a: "aids_fresh db" "active_unique db" "r \<in> set (check_secret s d p db)"
  have "active_rows (cancel_update (aid r) db) = filter (\<lambda>x. aid x \<noteq> aid r) (active_rows db)"
    unfolding active_rows_cancel_update by (simp add: active_rows_def)
  also have "\<dots> = filter (\<lambda>x. reg_key x \<noteq> (s, d)) (active_rows db)"
    using active_row_by_aid [OF a] by (auto intro: filter_cong)
  finally show ?thesis
    by (simp add: active_regs_def filter_map comp_def map_of_filter_key_neq [symmetric])
qed

lemma check_apply_cancel_found:
  assumes "aids_fresh db" "active_unique db" "r \<in> set (check_secret s d p db)"
  shows "check_apply s d (cancel_update (aid r) db) = []"
proof -
  have "\<not> (reg_key x = (s, d))" if "x \<in> set (active_rows db)" "aid x \<noteq> aid r" for x
    using active_row_by_aid [OF assms that(1)] that(2) by simp
  then show ?thesis
    unfolding check_apply_active_rows active_rows_cancel_update
    by (auto simp: filter_empty_conv active_rows_def)
qed

lemma check_secret_of_check_apply:
  "check_apply s d db = [] \<Longrightarrow> check_secret s d p db = []"
  by (auto simp: check_apply_def check_secret_def filter_empty_conv)

lemma active_regs_Some:
  "active_regs db k = Some r \<Longrightarrow> r \<in> set (active_rows db) \<and> reg_key r = k"
  by (auto simp: active_regs_def dest: map_of_SomeD)

lemma check_secret_mem:
  "r \<in> set (active_rows db) \<Longrightarrow> reg_key r = (s, d) \<Longrightarrow> secret r = p \<Longrightarrow>
   r \<in> set (check_secret s d p db)"
  by (auto simp: check_secret_def active_rows_def reg_key_def)

text \<open>
  C23: Insert and lookup round trip: after a registration inserted where the
  duplicate check found nothing, the lookup of line 121 with the same student
  ID, day and PIN returns exactly the new row.
\<close>

theorem apply_insert_lookup:
  "check_apply s d db = [] \<Longrightarrow>
   check_secret s d p (apply_insert n s d ts p db) = [new_row (next_aid db) n s d ts p]"
proof -
  assume "check_apply s d db = []"
  then have "check_secret s d p db = []" by (rule check_secret_of_check_apply)
  then show ?thesis by (simp add: check_secret_apply_insert)
qed

section \<open>Witnesses\<close>

theorem apply_insert_refines_witness:
  "check_apply ''2023-00001'' 19423 empty_db = [] \<and>
   active_regs (apply_insert ''Hong'' ''2023-00001'' 19423 1678071600 ''1234'' empty_db) =
     (active_regs empty_db)((''2023-00001'', 19423) \<mapsto> new_row 1 ''Hong'' ''2023-00001'' 19423 1678071600 ''1234'')"
proof -
  have h: "check_apply ''2023-00001'' 19423 empty_db = []"
    by (simp add: check_apply_def empty_db_def)
  from apply_insert_refines [OF h, where n = "''Hong''" and ts = 1678071600 and p = "''1234''"] h show ?thesis
    by (simp add: empty_db_def)
qed

theorem cancel_update_refines_witness:
  "active_regs (cancel_update 1 (apply_insert ''Hong'' ''2023-00001'' 19423 1678071600 ''1234'' empty_db)) =
   (active_regs (apply_insert ''Hong'' ''2023-00001'' 19423 1678071600 ''1234'' empty_db))
     ((''2023-00001'', 19423) := None)"
proof -
  let ?db = "apply_insert ''Hong'' ''2023-00001'' 19423 1678071600 ''1234'' empty_db"
  have "aids_fresh ?db"
    by (simp add: aids_fresh_def apply_insert_def empty_db_def)
  moreover have "active_unique ?db"
    by (simp add: active_unique_def active_rows_def apply_insert_def empty_db_def)
  moreover have "new_row 1 ''Hong'' ''2023-00001'' 19423 1678071600 ''1234'' \<in>
      set (check_secret ''2023-00001'' 19423 ''1234'' ?db)"
    by (simp add: check_secret_def apply_insert_def empty_db_def)
  ultimately show ?thesis
    using cancel_update_refines by fastforce
qed

theorem apply_insert_lookup_witness:
  "check_secret ''2023-00001'' 19423 ''1234''
     (apply_insert ''Hong'' ''2023-00001'' 19423 1678071600 ''1234'' empty_db) =
   [new_row 1 ''Hong'' ''2023-00001'' 19423 1678071600 ''1234'']"
proof -
  have h: "check_apply ''2023-00001'' 19423 empty_db = []"
    by (simp add: check_apply_def empty_db_def)
  from apply_insert_lookup [OF h, where n = "''Hong''" and ts = 1678071600 and p = "''1234''"] show ?thesis
    by (simp add: empty_db_def)
qed

end
