(* ===== verification/Page.thy ===== *)
theory Page
  imports Schedule Store
begin

text \<open>
  One run of the Streamlit script \<^verbatim>\<open>src/Offline_Attendance.py\<close> (lines 42--152).
  Streamlit reruns the whole script on every interaction; a run sees at most
  one clicked button, given here as a \<open>request\<close>. A run decides the session
  (theory \<open>Schedule\<close>), counts the day's active registrations, shows the
  registration form only under the limit, and shows the lookup/cancel form in
  any case. The forms validate their fields and then call the store (theory
  \<open>Store\<close>). What the run displays is a list of messages, an exception ends
  the run, and the table after the run is its effect.
\<close>

section \<open>Requests, messages and outcomes\<close>

datatype request =
    NoClick
  | ApplyClick string string string
  | LookupClick string string
  | CancelClick string string

text \<open>
  A request whose fields contain no quote character: for such requests every
  statement the run sends means what the functions of theory \<open>Store\<close>
  compute (theory \<open>PageSql\<close> proves the run equal to the run that sends the
  statement texts).
\<close>

fun safe_request :: "request \<Rightarrow> bool" where
  "safe_request NoClick = True"
| "safe_request (ApplyClick n s p) \<longleftrightarrow> quote_free n \<and> quote_free s \<and> quote_free p"
| "safe_request (LookupClick s p) \<longleftrightarrow> quote_free s \<and> quote_free p"
| "safe_request (CancelClick s p) \<longleftrightarrow> quote_free s \<and> quote_free p"

datatype msg =
    NoLectureTitle
  | NextLectureTitle day
  | ApplyTitle day
  | ApplyPrompt
  | FullNotice
  | LookupHeader
  | ErrMissing
  | ErrSidFormat
  | ErrPwdLength
  | ApplyDone
  | ErrDuplicate
  | ErrNoRecord
  | LookupDone
  | ShowTable "(nat \<times> string \<times> string \<times> day) list"
  | CancelDone

record outcome =
  shown :: "msg list"
  raised :: "py_error option"
  store :: db

definition emit :: "msg list \<Rightarrow> db \<Rightarrow> outcome" where
  "emit ms db = \<lparr>shown = ms, raised = None, store = db\<rparr>"

definition abort :: "msg list \<Rightarrow> py_error \<Rightarrow> db \<Rightarrow> outcome" where
  "abort ms e db = \<lparr>shown = ms, raised = Some e, store = db\<rparr>"

text \<open>Statements run in sequence; an exception skips the rest of the script.\<close>

definition then_run :: "outcome \<Rightarrow> (db \<Rightarrow> outcome) \<Rightarrow> outcome" where
  "then_run r f =
     (case raised r of
        Some e \<Rightarrow> r
      | None \<Rightarrow> (let r' = f (store r) in r'\<lparr>shown := shown r @ shown r'\<rparr>))"

definition shown_first :: "msg list \<Rightarrow> outcome \<Rightarrow> outcome" where
  "shown_first ms r = r\<lparr>shown := ms @ shown r\<rparr>"

section \<open>The forms\<close>

text \<open>
  Lines 82--86 (and 115--118, 135--138): the length checks that follow the
  emptiness check. The widgets are declared with \<^verbatim>\<open>max_chars=10\<close> and
  \<^verbatim>\<open>max_chars=4\<close>; the code itself only rejects values that are too short.
\<close>

definition check_format :: "string \<Rightarrow> string \<Rightarrow> msg option" where
  "check_format s p =
     (if length s < 10 then Some ErrSidFormat
      else if length p < 4 then Some ErrPwdLength
      else None)"

text \<open>
  \<open>net k\<close> says whether the \<open>k\<close>-th database call of the run succeeds: call 0
  is the count of line 71, calls 1 and 2 are those of the clicked form.
\<close>

definition apply_form ::
  "(nat \<Rightarrow> bool) \<Rightarrow> day \<Rightarrow> instant \<Rightarrow> string \<Rightarrow> string \<Rightarrow> string \<Rightarrow> db \<Rightarrow> outcome" where
  "apply_form net d ts n s p db =
     (if n \<noteq> [] \<and> s \<noteq> [] \<and> p \<noteq> [] then
        (case check_format s p of
           Some m \<Rightarrow> emit [m] db
         | None \<Rightarrow>
             (case run_query (net 1) (check_apply s d) db of
                Inl e \<Rightarrow> abort [] e db
              | Inr found \<Rightarrow>
                  if found = [] then
                    (case run_tx (net 2) (apply_insert n s d ts p) db of
                       Inl e \<Rightarrow> abort [] e db
                     | Inr db' \<Rightarrow> emit [ApplyDone] db')
                  else emit [ErrDuplicate] db))
      else emit [ErrMissing] db)"

definition lookup_form :: "(nat \<Rightarrow> bool) \<Rightarrow> day \<Rightarrow> string \<Rightarrow> string \<Rightarrow> db \<Rightarrow> outcome" where
  "lookup_form net d s p db =
     (if s \<noteq> [] \<and> p \<noteq> [] then
        (case check_format s p of
           Some m \<Rightarrow> emit [m] db
         | None \<Rightarrow>
             (case run_query (net 1) (check_secret s d p) db of
                Inl e \<Rightarrow> abort [] e db
              | Inr found \<Rightarrow>
                  if found = [] then emit [ErrNoRecord] db
                  else
                    (case run_query (net 2) (check_secret s d p) db of
                       Inl e \<Rightarrow> abort [LookupDone] e db
                     | Inr again \<Rightarrow> emit [LookupDone, ShowTable (map lookup_cols again)] db)))
      else emit [ErrMissing] db)"

definition cancel_form :: "(nat \<Rightarrow> bool) \<Rightarrow> day \<Rightarrow> string \<Rightarrow> string \<Rightarrow> db \<Rightarrow> outcome" where
  "cancel_form net d s p db =
     (if s \<noteq> [] \<and> p \<noteq> [] then
        (case check_format s p of
           Some m \<Rightarrow> emit [m] db
         | None \<Rightarrow>
             (case run_query (net 1) (check_secret s d p) db of
                Inl e \<Rightarrow> abort [] e db
              | Inr [] \<Rightarrow> emit [ErrNoRecord] db
              | Inr (r # _) \<Rightarrow>
                  (case run_tx (net 2) (cancel_update (aid r)) db of
                     Inl e \<Rightarrow> abort [] e db
                   | Inr db' \<Rightarrow> emit [CancelDone] db')))
      else emit [ErrMissing] db)"

section \<open>The page\<close>

text \<open>
  Lines 66--152, for the open day \<open>d\<close>: the title, the count query, the
  registration form only when the count is under the limit (else the notice of
  line 102), then the lookup/cancel form.
\<close>

definition apply_part :: "(nat \<Rightarrow> bool) \<Rightarrow> day \<Rightarrow> instant \<Rightarrow> request \<Rightarrow> db \<Rightarrow> outcome" where
  "apply_part net d ts req db =
     (case req of ApplyClick n s p \<Rightarrow> apply_form net d ts n s p db | _ \<Rightarrow> emit [] db)"

definition lookup_part :: "(nat \<Rightarrow> bool) \<Rightarrow> day \<Rightarrow> request \<Rightarrow> db \<Rightarrow> outcome" where
  "lookup_part net d req db =
     (case req of
        LookupClick s p \<Rightarrow> lookup_form net d s p db
      | CancelClick s p \<Rightarrow> cancel_form net d s p db
      | _ \<Rightarrow> emit [] db)"

definition open_page ::
  "nat \<Rightarrow> (nat \<Rightarrow> bool) \<Rightarrow> day \<Rightarrow> instant \<Rightarrow> request \<Rightarrow> db \<Rightarrow> outcome" where
  "open_page lim net d ts req db =
     (case run_query (net 0) (applycount d) db of
        Inl e \<Rightarrow> abort [ApplyTitle d] e db
      | Inr cnt \<Rightarrow>
          then_run
            (if cnt < lim then shown_first [ApplyTitle d, ApplyPrompt] (apply_part net d ts req db)
             else emit [ApplyTitle d, FullNotice] db)
            (\<lambda>db'. shown_first [LookupHeader] (lookup_part net d req db')))"

text \<open>
  Lines 54--152 for a configured list of sessions and limit: the selector
  decides which title is shown and whether the open page runs.
\<close>

definition page_run ::
  "instant list \<Rightarrow> nat \<Rightarrow> (nat \<Rightarrow> bool) \<Rightarrow> instant \<Rightarrow> instant \<Rightarrow> request \<Rightarrow> db \<Rightarrow> outcome" where
  "page_run dates lim net now ts req db =
     (case select_session dates now of
        Inl e \<Rightarrow> abort [] e db
      | Inr NoSession \<Rightarrow> emit [NoLectureTitle] db
      | Inr (NextSession d) \<Rightarrow> emit [NextLectureTitle d] db
      | Inr (OpenSession d) \<Rightarrow> open_page lim net d ts req db)"

text \<open>
  The deployed script: the constants of lines 49 and 52, and the two clock
  readings of lines 44--46 and 91--92 taken on a host with the given UTC
  offset.
\<close>

record run_env =
  host_offset :: int
  clock :: instant
  clock_apply :: instant
  db_up :: "nat \<Rightarrow> bool"

definition script :: "run_env \<Rightarrow> request \<Rightarrow> db \<Rightarrow> outcome" where
  "script env req db =
     page_run date_list student_limit (db_up env)
       (now_kst (host_offset env) (clock env)) (now_kst (host_offset env) (clock_apply env)) req db"

section \<open>Characteristic lemmas\<close>

lemmas outcome_defs = emit_def abort_def then_run_def shown_first_def

lemma outcome_sel [simp]:
  "shown (emit ms db) = ms" "raised (emit ms db) = None" "store (emit ms db) = db"
  "shown (abort ms e db) = ms" "raised (abort ms e db) = Some e" "store (abort ms e db) = db"
  "store (shown_first ms r) = store r" "raised (shown_first ms r) = raised r"
  "shown (shown_first ms r) = ms @ shown r"
  by (simp_all add: outcome_defs)

lemma then_run_sel [simp]:
  "raised r = None \<Longrightarrow> store (then_run r f) = store (f (store r))"
  "raised r = None \<Longrightarrow> raised (then_run r f) = raised (f (store r))"
  "raised r = None \<Longrightarrow> shown (then_run r f) = shown r @ shown (f (store r))"
  "raised r = Some e \<Longrightarrow> then_run r f = r"
  by (simp_all add: then_run_def Let_def)

lemma check_format_msgs [simp]:
  "check_format s p \<noteq> Some ApplyDone" "check_format s p \<noteq> Some CancelDone"
  by (simp_all add: check_format_def)

lemma apply_form_store:
  "store (apply_form net d ts n s p db) = db \<or>
   (check_apply s d db = [] \<and> store (apply_form net d ts n s p db) = apply_insert n s d ts p db)"
  by (auto simp: apply_form_def run_query_def run_tx_def split: option.splits)

lemma lookup_form_store: "store (lookup_form net d s p db) = db"
  by (auto simp: lookup_form_def run_query_def split: option.splits)

lemma cancel_form_store:
  "store (cancel_form net d s p db) = db \<or>
   (\<exists>r rs. check_secret s d p db = r # rs \<and> store (cancel_form net d s p db) = cancel_update (aid r) db)"
  by (auto simp: cancel_form_def run_query_def run_tx_def split: option.splits list.splits)

lemma open_page_store:
  "store (open_page lim net d ts req db) = db \<or>
   (\<exists>n s p. applycount d db < lim \<and> check_apply s d db = [] \<and>
      store (open_page lim net d ts req db) = apply_insert n s d ts p db) \<or>
   (\<exists>s p r rs. check_secret s d p db = r # rs \<and>
      store (open_page lim net d ts req db) = cancel_update (aid r) db)"
proof (cases "net 0")
  case False
  then show ?thesis by (simp add: open_page_def run_query_def)
next
  case up: True
  show ?thesis
  proof (cases req)
    case (ApplyClick n s p)
    then show ?thesis
      using up apply_form_store [of net d ts n s p db]
      by (cases "raised (apply_form net d ts n s p db)")
         (auto simp: open_page_def run_query_def apply_part_def lookup_part_def)
  next
    case (CancelClick s p)
    with up have "store (open_page lim net d ts req db) = store (cancel_form net d s p db)"
      by (simp add: open_page_def run_query_def apply_part_def lookup_part_def)
    with cancel_form_store [of net d s p db] show ?thesis
      by (elim disjE) force+
  next
    case (LookupClick s p)
    then show ?thesis
      using up by (simp add: open_page_def run_query_def apply_part_def lookup_part_def lookup_form_store)
  next
    case NoClick
    then show ?thesis
      using up by (simp add: open_page_def run_query_def apply_part_def lookup_part_def)
  qed
qed
lemma page_run_store_cases:
  obtains (same) "store (page_run dates lim net now ts req db) = db"
  | (insert) d n s p where "select_session dates now = Inr (OpenSession d)"
      "applycount d db < lim" "check_apply s d db = []"
      "store (page_run dates lim net now ts req db) = apply_insert n s d ts p db"
  | (cancel) d s p r rs where "select_session dates now = Inr (OpenSession d)"
      "check_secret s d p db = r # rs"
      "store (page_run dates lim net now ts req db) = cancel_update (aid r) db"
proof -
  consider (opened) d where "select_session dates now = Inr (OpenSession d)"
    | (closed) "store (page_run dates lim net now ts req db) = db"
  proof (cases "select_session dates now")
    case (Inr st)
    then show ?thesis using that by (cases st) (auto simp: page_run_def)
  qed (auto simp: page_run_def)
  then show ?thesis
  proof cases
    case closed
    then show ?thesis by (rule same)
  next
    case (opened d)
    then have eq: "store (page_run dates lim net now ts req db) = store (open_page lim net d ts req db)"
      by (simp add: page_run_def)
    from open_page_store [of lim net d ts req db] show ?thesis
      unfolding eq [symmetric] using opened same insert cancel by blast
  qed
qed

lemma apply_form_raised: "raised (apply_form net d ts n s p db) = Some e \<Longrightarrow> store (apply_form net d ts n s p db) = db"
  by (auto simp: apply_form_def run_query_def run_tx_def split: option.splits)

lemma cancel_form_raised: "raised (cancel_form net d s p db) = Some e \<Longrightarrow> store (cancel_form net d s p db) = db"
  by (auto simp: cancel_form_def run_query_def run_tx_def split: option.splits list.splits)

lemma apply_form_done:
  "ApplyDone \<in> set (shown (apply_form net d ts n s p db)) \<Longrightarrow>
   check_apply s d db = [] \<and> store (apply_form net d ts n s p db) = apply_insert n s d ts p db"
  by (auto simp: apply_form_def run_query_def run_tx_def split: option.splits if_splits)

lemma apply_form_duplicate:
  "check_apply s d db \<noteq> [] \<Longrightarrow>
   store (apply_form net d ts n s p db) = db \<and> ApplyDone \<notin> set (shown (apply_form net d ts n s p db))"
  by (auto simp: apply_form_def run_query_def split: option.splits)

lemma cancel_form_done:
  assumes "CancelDone \<in> set (shown (cancel_form net d s p db))"
  shows "\<exists>r rs. check_secret s d p db = r # rs \<and> store (cancel_form net d s p db) = cancel_update (aid r) db"
proof (cases "check_secret s d p db")
  case Nil
  with assms show ?thesis
    by (auto simp: cancel_form_def run_query_def split: option.splits if_splits)
next
  case (Cons r rs)
  with assms show ?thesis
    by (auto simp: cancel_form_def run_query_def run_tx_def split: option.splits if_splits)
qed

lemma cancel_form_not_found:
  "check_secret s d p db = [] \<Longrightarrow>
   store (cancel_form net d s p db) = db \<and> CancelDone \<notin> set (shown (cancel_form net d s p db))"
  by (auto simp: cancel_form_def run_query_def split: option.splits)

text \<open>
  C5: Once a registration form submission with quote-free fields has
  succeeded, a second quote-free submission for the same student ID and day
  (any name, PIN, clock or database state) inserts nothing and never reports
  success.
\<close>

theorem apply_form_twice:
  "quote_free n \<Longrightarrow> quote_free s \<Longrightarrow> quote_free p \<Longrightarrow> quote_free n' \<Longrightarrow> quote_free p' \<Longrightarrow>
   apply_form net d ts n s p db = emit [ApplyDone] db1 \<Longrightarrow>
   store (apply_form net' d ts' n' s p' db1) = db1 \<and>
   ApplyDone \<notin> set (shown (apply_form net' d ts' n' s p' db1))"
proof -
  assume "quote_free n" "quote_free s" "quote_free p" "quote_free n'" "quote_free p'"
    and first: "apply_form net d ts n s p db = emit [ApplyDone] db1"
  then have "ApplyDone \<in> set (shown (apply_form net d ts n s p db))" by simp
  from apply_form_done [OF this] first have "db1 = apply_insert n s d ts p db" by simp
  then have "check_apply s d db1 \<noteq> []" by (simp add: check_apply_apply_insert)
  then show ?thesis by (rule apply_form_duplicate)
qed

text \<open>
  C6: A registration with all fields filled and quote-free, well-formed
  lengths, no active row for the student and day, and a working database
  inserts the new row and reports success.
\<close>

theorem apply_form_success:
  "quote_free n \<Longrightarrow> quote_free s \<Longrightarrow> quote_free p \<Longrightarrow> n \<noteq> [] \<Longrightarrow> s \<noteq> [] \<Longrightarrow> p \<noteq> [] \<Longrightarrow> check_format s p = None \<Longrightarrow> net 1 \<Longrightarrow> net 2 \<Longrightarrow>
   check_apply s d db = [] \<Longrightarrow>
   apply_form net d ts n s p db = emit [ApplyDone] (apply_insert n s d ts p db)"
  by (simp add: apply_form_def run_query_def run_tx_def)

lemma cancel_form_found:
  "s \<noteq> [] \<Longrightarrow> p \<noteq> [] \<Longrightarrow> check_format s p = None \<Longrightarrow> net 1 \<Longrightarrow> net 2 \<Longrightarrow>
   check_secret s d p db = r # rs \<Longrightarrow>
   cancel_form net d s p db = emit [CancelDone] (cancel_update (aid r) db)"
  by (simp add: cancel_form_def run_query_def run_tx_def)

text \<open>
  C7: Cancellation with quote-free fields is idempotent: after a successful
  cancellation, a second cancellation for the same student ID and day, with
  any quote-free PIN, changes nothing and reports no success (the lookup of
  line 141 finds no active row).
\<close>

theorem cancel_form_twice:
  "quote_free s \<Longrightarrow> quote_free p \<Longrightarrow> quote_free p' \<Longrightarrow> aids_fresh db \<Longrightarrow> active_unique db \<Longrightarrow> cancel_form net d s p db = emit [CancelDone] db1 \<Longrightarrow>
   store (cancel_form net' d s p' db1) = db1 \<and> CancelDone \<notin> set (shown (cancel_form net' d s p' db1))"
proof -
  assume "quote_free s" "quote_free p" "quote_free p'"
    and inv: "aids_fresh db" "active_unique db" and first: "cancel_form net d s p db = emit [CancelDone] db1"
  then have "CancelDone \<in> set (shown (cancel_form net d s p db))" by simp
  from cancel_form_done [OF this] obtain r rs where
    found: "check_secret s d p db = r # rs" and db1: "store (cancel_form net d s p db) = cancel_update (aid r) db"
    by blast
  from found have "r \<in> set (check_secret s d p db)" by simp
  from check_apply_cancel_found [OF inv this] first db1
  have "check_secret s d p' db1 = []" by (simp add: check_secret_of_check_apply)
  then show ?thesis by (rule cancel_form_not_found)
qed

text \<open>
  C8: Cancellation refines the abstract store: when the abstract map holds an
  active registration for the student and day whose PIN matches, a valid
  quote-free cancel request on a working database reports success and
  removes exactly that key from the map.
\<close>

theorem cancel_form_refines:
  "quote_free s \<Longrightarrow> quote_free p \<Longrightarrow> aids_fresh db \<Longrightarrow> active_unique db \<Longrightarrow> s \<noteq> [] \<Longrightarrow> p \<noteq> [] \<Longrightarrow> check_format s p = None \<Longrightarrow>
   net 1 \<Longrightarrow> net 2 \<Longrightarrow> active_regs db (s, d) = Some r \<Longrightarrow> secret r = p \<Longrightarrow>
   shown (cancel_form net d s p db) = [CancelDone] \<and>
   active_regs (store (cancel_form net d s p db)) = (active_regs db)((s, d) := None)"
proof -
  assume "quote_free s" "quote_free p"
    and inv: "aids_fresh db" "active_unique db" and valid: "s \<noteq> []" "p \<noteq> []" "check_format s p = None"
    and up: "net 1" "net 2" and reg: "active_regs db (s, d) = Some r" "secret r = p"
  from active_regs_Some [OF reg(1)] reg(2) have "r \<in> set (check_secret s d p db)"
    by (auto intro: check_secret_mem)
  then obtain r' rs where found: "check_secret s d p db = r' # rs"
    by (cases "check_secret s d p db") auto
  then have "r' \<in> set (check_secret s d p db)" by simp
  from cancel_update_refines [OF inv this] cancel_form_found [OF valid up found] show ?thesis
    by simp
qed

text \<open>
  C10: A run of a quote-free request that ends in an exception (the empty
  schedule, or a failing database call) leaves the table unchanged: the only
  write of a run is its last database call.
\<close>

theorem page_run_error_unchanged:
  "safe_request req \<Longrightarrow> raised (page_run dates lim net now ts req db) \<noteq> None \<Longrightarrow>
   store (page_run dates lim net now ts req db) = db"
proof -
  assume "safe_request req" and exc: "raised (page_run dates lim net now ts req db) \<noteq> None"
  show ?thesis
  proof (cases "\<exists>d. select_session dates now = Inr (OpenSession d)")
    case False
    then show ?thesis
      by (auto simp: page_run_def split: sum.splits session_state.splits)
  next
    case True
    then obtain d where st: "select_session dates now = Inr (OpenSession d)" by blast
    then have eq: "page_run dates lim net now ts req db = open_page lim net d ts req db"
      by (simp add: page_run_def)
    from exc have exc': "raised (open_page lim net d ts req db) \<noteq> None" by (simp add: eq)
    have "store (open_page lim net d ts req db) = db"
    proof (cases req)
      case (ApplyClick n s p)
      with exc' show ?thesis
        by (cases "raised (apply_form net d ts n s p db)")
           (auto simp: open_page_def run_query_def apply_part_def lookup_part_def
              dest: apply_form_raised split: if_splits)
    qed (use exc' in \<open>auto simp: open_page_def run_query_def apply_part_def lookup_part_def
           lookup_form_store dest: cancel_form_raised split: if_splits\<close>)
    then show ?thesis by (simp add: eq)
  qed
qed

text \<open>
  C11: The lookup form never writes: with well-formed quote-free fields and a
  working database it shows either the "no record" error or the success message with
  the table of the matching active rows (columns aid, name, ID, date) and
  leaves the table as it was.
\<close>

theorem lookup_form_result:
  "quote_free s \<Longrightarrow> quote_free p \<Longrightarrow> s \<noteq> [] \<Longrightarrow> p \<noteq> [] \<Longrightarrow> check_format s p = None \<Longrightarrow> net 1 \<Longrightarrow> net 2 \<Longrightarrow>
   lookup_form net d s p db =
     emit (if check_secret s d p db = [] then [ErrNoRecord]
           else [LookupDone, ShowTable (map lookup_cols (check_secret s d p db))]) db"
  by (simp add: lookup_form_def run_query_def)

text \<open>
  C12: Under the widgets' \<^verbatim>\<open>max_chars\<close> bounds (ID at most 10, PIN at most 4
  characters), the code's "too short" checks accept exactly the lengths the
  specification requires: ID of length 10 and PIN of length 4.
\<close>

theorem check_format_widget:
  "length s \<le> 10 \<Longrightarrow> length p \<le> 4 \<Longrightarrow> check_format s p = None \<longleftrightarrow> length s = 10 \<and> length p = 4"
  by (auto simp: check_format_def)

text \<open>
  C27: Validation comes after the count query: on an open day, a registration
  request with an empty student ID still makes the count query of line 71
  first, and when that call fails the run ends in an exception; the
  missing-field message of line 99 is never shown and the failure is a store
  failure. The specification requires field validation before any store
  access.
\<close>

theorem validation_after_count:
  "select_session dates now = Inr (OpenSession d) \<Longrightarrow> \<not> net 0 \<Longrightarrow>
   page_run dates lim net now ts (ApplyClick n [] p) db = abort [ApplyTitle d] DBError db"
  by (simp add: page_run_def open_page_def run_query_def)

section \<open>Witnesses\<close>

theorem apply_form_twice_witness:
  "store (apply_form (\<lambda>_. True) 19423 1678075200 ''Kim'' ''2023-00001'' ''9999''
      (apply_insert ''Hong'' ''2023-00001'' 19423 1678071600 ''1234'' empty_db)) =
     apply_insert ''Hong'' ''2023-00001'' 19423 1678071600 ''1234'' empty_db \<and>
   ApplyDone \<notin> set (shown (apply_form (\<lambda>_. True) 19423 1678075200 ''Kim'' ''2023-00001'' ''9999''
      (apply_insert ''Hong'' ''2023-00001'' 19423 1678071600 ''1234'' empty_db)))"
proof -
  have first: "apply_form (\<lambda>_. True) 19423 1678071600 ''Hong'' ''2023-00001'' ''1234'' empty_db =
      emit [ApplyDone] (apply_insert ''Hong'' ''2023-00001'' 19423 1678071600 ''1234'' empty_db)"
    by (simp add: apply_form_def check_format_def run_query_def run_tx_def check_apply_def empty_db_def)
  show ?thesis by (rule apply_form_twice [OF _ _ _ _ _ first]) (simp_all add: quote_free_def sq_def)
qed

theorem apply_form_success_witness:
  "apply_form (\<lambda>_. True) 19423 1678071600 ''Hong'' ''2023-00001'' ''1234'' empty_db =
     emit [ApplyDone] (apply_insert ''Hong'' ''2023-00001'' 19423 1678071600 ''1234'' empty_db)"
  by (rule apply_form_success) (simp_all add: check_format_def check_apply_def empty_db_def quote_free_def sq_def)

theorem cancel_form_twice_witness:
  "store (cancel_form (\<lambda>_. True) 19423 ''2023-00001'' ''0000''
      (cancel_update 1 (apply_insert ''Hong'' ''2023-00001'' 19423 1678071600 ''1234'' empty_db))) =
     cancel_update 1 (apply_insert ''Hong'' ''2023-00001'' 19423 1678071600 ''1234'' empty_db) \<and>
   CancelDone \<notin> set (shown (cancel_form (\<lambda>_. True) 19423 ''2023-00001'' ''0000''
      (cancel_update 1 (apply_insert ''Hong'' ''2023-00001'' 19423 1678071600 ''1234'' empty_db))))"
proof -
  let ?db = "apply_insert ''Hong'' ''2023-00001'' 19423 1678071600 ''1234'' empty_db"
  have "aids_fresh ?db" by (simp add: aids_fresh_def apply_insert_def empty_db_def)
  moreover have "active_unique ?db"
    by (simp add: active_unique_def active_rows_def apply_insert_def empty_db_def)
  moreover have "cancel_form (\<lambda>_. True) 19423 ''2023-00001'' ''1234'' ?db = emit [CancelDone] (cancel_update 1 ?db)"
    by (simp add: cancel_form_def check_format_def run_query_def run_tx_def check_secret_def
        apply_insert_def empty_db_def)
  moreover have "quote_free ''2023-00001''" "quote_free ''1234''" "quote_free ''0000''"
    by (simp_all add: quote_free_def sq_def)
  ultimately show ?thesis using cancel_form_twice by blast
qed

theorem cancel_form_refines_witness:
  "shown (cancel_form (\<lambda>_. True) 19423 ''2023-00001'' ''1234''
      (apply_insert ''Hong'' ''2023-00001'' 19423 1678071600 ''1234'' empty_db)) = [CancelDone] \<and>
   active_regs (store (cancel_form (\<lambda>_. True) 19423 ''2023-00001'' ''1234''
      (apply_insert ''Hong'' ''2023-00001'' 19423 1678071600 ''1234'' empty_db))) =
     (active_regs (apply_insert ''Hong'' ''2023-00001'' 19423 1678071600 ''1234'' empty_db))
       ((''2023-00001'', 19423) := None)"
proof -
  let ?db = "apply_insert ''Hong'' ''2023-00001'' 19423 1678071600 ''1234'' empty_db"
  have "aids_fresh ?db" by (simp add: aids_fresh_def apply_insert_def empty_db_def)
  moreover have "active_unique ?db"
    by (simp add: active_unique_def active_rows_def apply_insert_def empty_db_def)
  moreover have "active_regs ?db (''2023-00001'', 19423) = Some (new_row 1 ''Hong'' ''2023-00001'' 19423 1678071600 ''1234'')"
    by (simp add: active_regs_def active_rows_def reg_key_def apply_insert_def empty_db_def)
  moreover have "secret (new_row 1 ''Hong'' ''2023-00001'' 19423 1678071600 ''1234'') = ''1234''"
    by simp
  moreover have "check_format ''2023-00001'' ''1234'' = None" by (simp add: check_format_def)
  moreover have "quote_free ''2023-00001''" "quote_free ''1234''" by (simp_all add: quote_free_def sq_def)
  ultimately show ?thesis
    using cancel_form_refines [of "''2023-00001''" "''1234''" ?db "\<lambda>_. True" 19423] by simp
qed

theorem page_run_error_unchanged_witness:
  "raised (page_run date_list student_limit (\<lambda>k. k \<noteq> 2) 1678071600 1678071600
      (ApplyClick ''Hong'' ''2023-00001'' ''1234'') empty_db) = Some DBError \<and>
   store (page_run date_list student_limit (\<lambda>k. k \<noteq> 2) 1678071600 1678071600
      (ApplyClick ''Hong'' ''2023-00001'' ''1234'') empty_db) = empty_db"
proof -
  have r: "raised (page_run date_list student_limit (\<lambda>k. k \<noteq> 2) 1678071600 1678071600
      (ApplyClick ''Hong'' ''2023-00001'' ''1234'') empty_db) = Some DBError"
    by (simp add: page_run_def select_session_def schedule_consts open_page_def run_query_def
        run_tx_def applycount_def empty_db_def student_limit_def apply_part_def apply_form_def
        check_format_def check_apply_def then_run_def)
  then have "raised (page_run date_list student_limit (\<lambda>k. k \<noteq> 2) 1678071600 1678071600
      (ApplyClick ''Hong'' ''2023-00001'' ''1234'') empty_db) \<noteq> None" by simp
  moreover have "safe_request (ApplyClick ''Hong'' ''2023-00001'' ''1234'')"
    by (simp add: quote_free_def sq_def)
  ultimately show ?thesis using page_run_error_unchanged r by simp
qed

theorem lookup_form_result_witness:
  "lookup_form (\<lambda>_. True) 19423 ''2023-00001'' ''1234''
      (apply_insert ''Hong'' ''2023-00001'' 19423 1678071600 ''1234'' empty_db) =
   emit [LookupDone, ShowTable [(1, ''Hong'', ''2023-00001'', 19423)]]
      (apply_insert ''Hong'' ''2023-00001'' 19423 1678071600 ''1234'' empty_db)"
proof -
  have "check_format ''2023-00001'' ''1234'' = None" by (simp add: check_format_def)
  moreover have "quote_free ''2023-00001''" "quote_free ''1234''" by (simp_all add: quote_free_def sq_def)
  ultimately have "lookup_form (\<lambda>_. True) 19423 ''2023-00001'' ''1234''
      (apply_insert ''Hong'' ''2023-00001'' 19423 1678071600 ''1234'' empty_db) =
     emit (if check_secret ''2023-00001'' 19423 ''1234''
               (apply_insert ''Hong'' ''2023-00001'' 19423 1678071600 ''1234'' empty_db) = [] then [ErrNoRecord]
           else [LookupDone, ShowTable (map lookup_cols (check_secret ''2023-00001'' 19423 ''1234''
               (apply_insert ''Hong'' ''2023-00001'' 19423 1678071600 ''1234'' empty_db)))])
      (apply_insert ''Hong'' ''2023-00001'' 19423 1678071600 ''1234'' empty_db)"
    using lookup_form_result by simp
  then show ?thesis
    by (simp add: check_secret_def apply_insert_def empty_db_def lookup_cols_def)
qed

theorem check_format_widget_witness:
  "check_format ''2023-00001'' ''1234'' = None"
  using check_format_widget [of "''2023-00001''" "''1234''"] by simp

theorem validation_after_count_witness:
  "page_run date_list student_limit (\<lambda>_. False) 1678071600 1678071600 (ApplyClick ''Hong'' [] ''1234'') empty_db =
   abort [ApplyTitle 19423] DBError empty_db"
proof -
  have "select_session date_list 1678071600 = Inr (OpenSession 19423)"
    by (simp add: select_session_def schedule_consts)
  then show ?thesis by (rule validation_after_count) simp
qed

end
