(* ===== verification/Runs.thy ===== *)
theory Runs
  imports Page
begin

text \<open>
  Sequences of script runs, each run executed alone (Streamlit serves one
  request at a time per session; the interleaving of runs is the subject of
  theory \<open>Race\<close>). The stores reachable from an empty table by runs of the page
  are an inductive set; the store invariants of theory \<open>Store\<close> hold in each
  of them by rule induction, and every run moves each registration along the
  lifecycle absent, active, canceled.
\<close>

section \<open>Reachable stores\<close>

inductive reachable :: "instant list \<Rightarrow> nat \<Rightarrow> db \<Rightarrow> bool" for dates lim where
  init: "reachable dates lim empty_db"
| run: "reachable dates lim db \<Longrightarrow> safe_request req \<Longrightarrow>
    reachable dates lim (store (page_run dates lim net now ts req db))"

definition store_inv :: "nat \<Rightarrow> db \<Rightarrow> bool" where
  "store_inv lim db \<longleftrightarrow> aids_fresh db \<and> active_unique db \<and> within_limit lim db"

section \<open>The lifecycle of a registration\<close>

datatype rstatus = Absent | Active | Canceled

definition row_status :: "db \<Rightarrow> nat \<Rightarrow> rstatus" where
  "row_status db a =
     (case find (\<lambda>r. aid r = a) (rows db) of
        None \<Rightarrow> Absent
      | Some r \<Rightarrow> if canceled r then Canceled else Active)"

text \<open>The state machine of the specification (section 4.2), one rule per transition.\<close>

inductive lifecycle :: "rstatus \<Rightarrow> rstatus \<Rightarrow> bool" where
  stay: "lifecycle st st"
| register: "lifecycle Absent Active"
| cancel: "lifecycle Active Canceled"

inductive_cases lifecycle_CanceledE [elim!]: "lifecycle Canceled st"
inductive_cases lifecycle_ActiveE [elim!]: "lifecycle Active st"

text \<open>A row evolves only by its \<^verbatim>\<open>canceled\<close> flag going from false to true.\<close>

definition row_evolves :: "apply_row \<Rightarrow> apply_row \<Rightarrow> bool" where
  "row_evolves r r' \<longleftrightarrow> r' = r \<or> (\<not> canceled r \<and> r' = r\<lparr>canceled := True\<rparr>)"

definition store_evolves :: "db \<Rightarrow> db \<Rightarrow> bool" where
  "store_evolves db db' \<longleftrightarrow>
     length (rows db) \<le> length (rows db') \<and>
     list_all2 row_evolves (rows db) (take (length (rows db)) (rows db'))"

section \<open>One run keeps the invariant\<close>

lemma store_inv_empty: "store_inv lim empty_db"
  by (simp add: store_inv_def aids_fresh_empty active_unique_empty within_limit_empty)

lemma store_inv_page_run:
  assumes "store_inv lim db"
  shows "store_inv lim (store (page_run dates lim net now ts req db))"
  using assms
proof (cases rule: page_run_store_cases [of dates lim net now ts req db])
  case same
  with assms show ?thesis by simp
next
  case (insert d n s p)
  with assms show ?thesis
    by (simp add: store_inv_def aids_fresh_apply_insert active_unique_apply_insert
        within_limit_apply_insert)
next
  case (cancel d s p r rs)
  with assms show ?thesis
    by (simp add: store_inv_def aids_fresh_cancel_update active_unique_cancel_update
        within_limit_cancel_update)
qed

lemma reachable_store_inv: "reachable dates lim db \<Longrightarrow> store_inv lim db"
proof (induction rule: reachable.induct)
  case init
  show ?case by (rule store_inv_empty)
next
  case (run db net now ts req)
  from run.IH show ?case by (rule store_inv_page_run)
qed

section \<open>One run moves each registration along the lifecycle\<close>

lemma find_aid_fresh: "aids_fresh db \<Longrightarrow> find (\<lambda>r. aid r = next_aid db) (rows db) = None"
  by (auto simp: aids_fresh_def list_all_iff find_None_iff)

lemma row_status_fresh: "aids_fresh db \<Longrightarrow> row_status db (next_aid db) = Absent"
  by (simp add: row_status_def find_aid_fresh)

lemma row_status_apply_insert:
  "aids_fresh db \<Longrightarrow>
   row_status (apply_insert n s d ts p db) a = (if a = next_aid db then Active else row_status db a)"
  by (auto simp: row_status_def apply_insert_def find_append_list find_aid_fresh
      split: option.splits)

lemma find_aid_cancel:
  "find (\<lambda>r. aid r = a) (map (\<lambda>r. if aid r = b then r\<lparr>canceled := True\<rparr> else r) xs) =
   map_option (\<lambda>r. if a = b then r\<lparr>canceled := True\<rparr> else r) (find (\<lambda>r. aid r = a) xs)"
  by (induction xs) auto

lemma row_status_cancel_update:
  "row_status (cancel_update b db) a =
     (if a = b \<and> row_status db a \<noteq> Absent then Canceled else row_status db a)"
  by (auto simp: row_status_def cancel_update_def find_aid_cancel split: option.splits)

lemma row_evolves_cancel:
  "list_all2 row_evolves xs (map (\<lambda>r. if aid r = b then r\<lparr>canceled := True\<rparr> else r) xs)"
  by (induction xs) (auto simp: row_evolves_def)

lemma store_evolves_refl: "store_evolves db db"
  by (simp add: store_evolves_def list_all2_refl row_evolves_def)

lemma store_evolves_apply_insert: "store_evolves db (apply_insert n s d ts p db)"
  by (simp add: store_evolves_def apply_insert_def list_all2_refl row_evolves_def)

lemma store_evolves_cancel_update: "store_evolves db (cancel_update b db)"
  by (simp add: store_evolves_def cancel_update_def row_evolves_cancel)

lemma store_evolves_page_run: "store_evolves db (store (page_run dates lim net now ts req db))"
  by (cases rule: page_run_store_cases [of dates lim net now ts req db])
     (simp_all add: store_evolves_refl store_evolves_apply_insert store_evolves_cancel_update)

lemmas sample_run_defs = page_run_def select_session_def schedule_consts open_page_def run_query_def
  run_tx_def applycount_def student_limit_def apply_part_def lookup_part_def apply_form_def
  cancel_form_def check_format_def check_apply_def check_secret_def then_run_def apply_insert_def
  cancel_update_def empty_db_def

section \<open>Properties of every reachable store\<close>

text \<open>
  C1: In every store reachable by runs of the page on quote-free requests
  (the fields contain no single quote), the duplicate-check query
  of line 88 returns at most one row for any student ID and day: there is at
  most one active registration per student and session.
\<close>

theorem reachable_check_apply_unique:
  "reachable dates lim db \<Longrightarrow> length (check_apply s d db) \<le> 1"
proof -
  assume "reachable dates lim db"
  then have "active_unique db" by (simp add: reachable_store_inv [unfolded store_inv_def])
  then show ?thesis
    unfolding check_apply_active_rows active_unique_def by (rule length_filter_le_one_distinct)
qed

text \<open>
  C2: In every store reachable by runs of the page on quote-free requests, the
  count query of line 69 for any day is at most the limit: runs executed one
  at a time never over-fill a session.
\<close>

theorem reachable_applycount_le:
  "reachable dates lim db \<Longrightarrow> applycount d db \<le> lim"
proof -
  assume "reachable dates lim db"
  then have "within_limit lim db" by (simp add: reachable_store_inv [unfolded store_inv_def])
  then show ?thesis by (simp add: within_limit_iff)
qed

text \<open>
  C9: Every run of a quote-free request moves each registration (identified by its \<^verbatim>\<open>aid\<close>) along the
  lifecycle of the specification: absent to active by registration, active to
  canceled by cancellation, no other change; and no row is ever removed or
  changed except for its canceled flag being set.
\<close>

theorem page_run_lifecycle:
  "safe_request req \<Longrightarrow> aids_fresh db \<Longrightarrow>
   lifecycle (row_status db a) (row_status (store (page_run dates lim net now ts req db)) a) \<and>
   store_evolves db (store (page_run dates lim net now ts req db))"
proof -
  assume "safe_request req" and fresh: "aids_fresh db"
  have "lifecycle (row_status db a) (row_status (store (page_run dates lim net now ts req db)) a)"
  proof (cases rule: page_run_store_cases [of dates lim net now ts req db])
    case same
    then show ?thesis by (simp add: lifecycle.stay)
  next
    case (insert d n s p)
    with fresh show ?thesis
      by (simp add: row_status_apply_insert row_status_fresh lifecycle.intros)
  next
    case (cancel d s p r rs)
    then show ?thesis
      by (cases "row_status db a") (simp_all add: row_status_cancel_update lifecycle.intros)
  qed
  then show ?thesis by (simp add: store_evolves_page_run)
qed


section \<open>Witnesses\<close>

theorem reachable_check_apply_unique_witness:
  "length (check_apply ''2023-00001'' 19423
      (store (page_run date_list student_limit (\<lambda>_. True) 1678071600 1678071600
        (ApplyClick ''Hong'' ''2023-00001'' ''1234'') empty_db))) \<le> 1 \<and>
   check_apply ''2023-00001'' 19423
      (store (page_run date_list student_limit (\<lambda>_. True) 1678071600 1678071600
        (ApplyClick ''Hong'' ''2023-00001'' ''1234'') empty_db)) \<noteq> []"
proof
  show "length (check_apply ''2023-00001'' 19423
      (store (page_run date_list student_limit (\<lambda>_. True) 1678071600 1678071600
        (ApplyClick ''Hong'' ''2023-00001'' ''1234'') empty_db))) \<le> 1"
    by (rule reachable_check_apply_unique [OF reachable.run [OF reachable.init]]) (simp add: quote_free_def sq_def)
  show "check_apply ''2023-00001'' 19423
      (store (page_run date_list student_limit (\<lambda>_. True) 1678071600 1678071600
        (ApplyClick ''Hong'' ''2023-00001'' ''1234'') empty_db)) \<noteq> []"
    by (simp add: sample_run_defs)
qed

theorem reachable_applycount_le_witness:
  "applycount 19423
      (store (page_run date_list 1 (\<lambda>_. True) 1678071600 1678071600
        (ApplyClick ''Hong'' ''2023-00001'' ''1234'') empty_db)) \<le> 1"
  by (rule reachable_applycount_le [OF reachable.run [OF reachable.init]]) (simp add: quote_free_def sq_def)

theorem page_run_lifecycle_witness:
  "lifecycle (row_status empty_db 1)
     (row_status (store (page_run date_list student_limit (\<lambda>_. True) 1678071600 1678071600
        (ApplyClick ''Hong'' ''2023-00001'' ''1234'') empty_db)) 1) \<and>
   row_status (store (page_run date_list student_limit (\<lambda>_. True) 1678071600 1678071600
        (ApplyClick ''Hong'' ''2023-00001'' ''1234'') empty_db)) 1 = Active"
proof
  show "lifecycle (row_status empty_db 1)
     (row_status (store (page_run date_list student_limit (\<lambda>_. True) 1678071600 1678071600
        (ApplyClick ''Hong'' ''2023-00001'' ''1234'') empty_db)) 1)"
    using page_run_lifecycle [OF _ aids_fresh_empty] by (simp add: quote_free_def sq_def)
  show "row_status (store (page_run date_list student_limit (\<lambda>_. True) 1678071600 1678071600
        (ApplyClick ''Hong'' ''2023-00001'' ''1234'') empty_db)) 1 = Active"
    by (simp add: sample_run_defs row_status_def)
qed


end
