(* ===== verification/Race.thy ===== *)
theory Race
  imports Runs
begin

text \<open>
  Concurrent registrations. Streamlit runs the script of each browser session
  in its own thread, and every database call of \<^verbatim>\<open>src/Offline_Attendance.py\<close>
  opens its own connection and commits on its own (\<^verbatim>\<open>run_query\<close>,
  \<^verbatim>\<open>run_tx\<close>, lines 15--40). A registration run is therefore three atomic
  steps on the shared table: the count of line 71, the duplicate check of
  line 89, the insert of line 94; the steps of different runs interleave. A
  client is the state of one registration run between its database calls;
  the scheduler is the inductive step relation, and \<open>run_schedule\<close> executes
  one given interleaving.
\<close>

section \<open>Clients and the shared table\<close>

datatype step_pc = Counting | Checking | Inserting | Finished

record client =
  c_name :: string
  c_sid :: string
  c_pwd :: string
  c_day :: day
  c_ts :: instant
  pc :: step_pc

record world =
  shared :: db
  clients :: "client list"

text \<open>
  A registration run whose fields passed the checks of lines 81--86, waiting
  for its count query.
\<close>

definition new_client :: "string \<Rightarrow> string \<Rightarrow> string \<Rightarrow> day \<Rightarrow> instant \<Rightarrow> client" where
  "new_client n s p d ts = \<lparr>c_name = n, c_sid = s, c_pwd = p, c_day = d, c_ts = ts, pc = Counting\<rparr>"

text \<open>One database call of a client: the next statement of its run, atomically.\<close>

definition client_step :: "nat \<Rightarrow> client \<Rightarrow> db \<Rightarrow> client \<times> db" where
  "client_step lim c db =
     (case pc c of
        Counting \<Rightarrow>
          (if applycount (c_day c) db < lim then (c\<lparr>pc := Checking\<rparr>, db) else (c\<lparr>pc := Finished\<rparr>, db))
      | Checking \<Rightarrow>
          (if check_apply (c_sid c) (c_day c) db = [] then (c\<lparr>pc := Inserting\<rparr>, db)
           else (c\<lparr>pc := Finished\<rparr>, db))
      | Inserting \<Rightarrow>
          (c\<lparr>pc := Finished\<rparr>, apply_insert (c_name c) (c_sid c) (c_day c) (c_ts c) (c_pwd c) db)
      | Finished \<Rightarrow> (c, db))"

definition move :: "nat \<Rightarrow> nat \<Rightarrow> world \<Rightarrow> world" where
  "move lim i w =
     (let (c', db') = client_step lim (clients w ! i) (shared w)
      in \<lparr>shared = db', clients = (clients w)[i := c']\<rparr>)"


text \<open>One interleaving, given as the list of clients scheduled in turn.\<close>

fun run_schedule :: "nat \<Rightarrow> nat list \<Rightarrow> world \<Rightarrow> world" where
  "run_schedule lim [] w = w"
| "run_schedule lim (i # is) w =
     (if i < length (clients w) \<and> pc (clients w ! i) \<noteq> Finished
      then run_schedule lim is (move lim i w) else run_schedule lim is w)"

section \<open>Schedules are runs of the scheduler\<close>


lemmas race_simps = move_def client_step_def new_client_def

text \<open>
  C25: Run alone, a registration client performs exactly the registration
  run of the page: its three database calls (count, duplicate check, insert)
  leave the table as the open page does for the same valid request on a
  working database. The step model is the code's run split at its database
  calls.
\<close>

theorem client_alone_refines:
  "n \<noteq> [] \<Longrightarrow> s \<noteq> [] \<Longrightarrow> p \<noteq> [] \<Longrightarrow> check_format s p = None \<Longrightarrow>
   shared (run_schedule lim [0, 0, 0] \<lparr>shared = db, clients = [new_client n s p d ts]\<rparr>) =
   store (open_page lim (\<lambda>_. True) d ts (ApplyClick n s p) db)"
  by (simp add: race_simps open_page_def run_query_def apply_part_def lookup_part_def
      apply_form_def run_tx_def)




section \<open>Witnesses\<close>

theorem client_alone_refines_witness:
  "shared (run_schedule 50 [0, 0, 0]
      \<lparr>shared = empty_db, clients = [new_client ''Hong'' ''2023-00001'' ''1234'' 19423 1678071600]\<rparr>) =
   store (open_page 50 (\<lambda>_. True) 19423 1678071600 (ApplyClick ''Hong'' ''2023-00001'' ''1234'') empty_db)"
  by (rule client_alone_refines) (simp_all add: check_format_def)




end
