(* ===== verification/Sql.thy ===== *)
theory Sql
  imports Page
begin

text \<open>
  The text of the SQL statements. \<^verbatim>\<open>src/Offline_Attendance.py\<close> builds every
  statement with a Python f-string that pastes the user's input between
  single quotes (lines 69, 88, 93, 121, 141, 148). The database then reads the
  statement back; what matters here is which string literals it reads. This
  theory writes out the statement texts, a lexer for SQL string literals (a
  quote ends a literal, two quotes stand for one quote inside it), and proves
  that for inputs without a quote character the database reads exactly the
  inputs back, while a 10-character student ID with a quote, which passes the
  length checks of the form, changes the literals of the statement.
\<close>

section \<open>Statement texts\<close>

text \<open>The f-string quoting \<^verbatim>\<open>'{v}'\<close>.\<close>

definition sql_lit :: "string \<Rightarrow> string" where
  "sql_lit v = sq # v @ [sq]"

definition applycount_sql :: "string \<Rightarrow> string" where
  "applycount_sql ds =
     ''SELECT count(*) FROM apply WHERE attend_date = '' @ sql_lit ds @ '' and canceled = False''"

definition check_sql :: "string \<Rightarrow> string \<Rightarrow> string" where
  "check_sql s ds =
     ''SELECT * FROM apply WHERE sid = '' @ sql_lit s @ '' and attend_date = '' @ sql_lit ds @
     '' and canceled = False''"

definition apply_sql :: "string \<Rightarrow> string \<Rightarrow> string \<Rightarrow> string \<Rightarrow> string \<Rightarrow> string" where
  "apply_sql n s ds ts p =
     ''INSERT INTO apply (sname, sid, attend_date, apply_timestamp, secret) VALUES ('' @
     sql_lit n @ '','' @ sql_lit s @ '','' @ sql_lit ds @ '','' @ sql_lit ts @ '','' @ sql_lit p @ '')''"

text \<open>
  Lines 121 and 141 select the columns under Korean aliases; the aliases are
  written as their UTF-8 bytes.
\<close>

definition lookup_select :: string where
  "lookup_select =
     ''SELECT aid, sname as '' @ [CHR 0xEC, CHR 0x9D, CHR 0xB4, CHR 0xEB, CHR 0xA6, CHR 0x84] @
     '', sid as '' @ [CHR 0xED, CHR 0x95, CHR 0x99, CHR 0xEB, CHR 0xB2, CHR 0x88] @
     '', attend_date as '' @
     [CHR 0xEC, CHR 0xB0, CHR 0xB8, CHR 0xEC, CHR 0x84, CHR 0x9D, CHR 0xEC, CHR 0x9D, CHR 0xBC, CHR 0xEC, CHR 0x9E, CHR 0x90]"

definition lookup_sql :: "string \<Rightarrow> string \<Rightarrow> string \<Rightarrow> string" where
  "lookup_sql s ds p =
     lookup_select @ '' FROM apply WHERE sid = '' @ sql_lit s @ '' and attend_date = '' @ sql_lit ds @
     '' and canceled = False and secret = '' @ sql_lit p"

definition cancel_sql :: "string \<Rightarrow> string" where
  "cancel_sql a = ''UPDATE apply SET canceled = True WHERE aid = '' @ sql_lit a"

section \<open>Reading the literals back\<close>

text \<open>
  The body of a literal after its opening quote: up to the closing quote, a
  doubled quote standing for one quote. \<open>None\<close> when the text ends first.
\<close>

fun lex_lit :: "string \<Rightarrow> (string \<times> string) option" where
  "lex_lit [] = None"
| "lex_lit (c # cs) =
     (if c = sq then
        (case cs of
           d # ds \<Rightarrow> if d = sq then map_option (\<lambda>(v, r). (sq # v, r)) (lex_lit ds) else Some ([], cs)
         | [] \<Rightarrow> Some ([], []))
      else map_option (\<lambda>(v, r). (c # v, r)) (lex_lit cs))"

text \<open>
  The literals of a statement in order; \<open>None\<close> for an unterminated literal,
  which the database rejects as a syntax error. Outside literals, \<^verbatim>\<open>--\<close>
  starts a comment that runs to the end of the line.
\<close>

function literals :: "string \<Rightarrow> string list option" where
  "literals [] = Some []"
| "literals (c # cs) =
     (if c = sq then
        (case lex_lit cs of
           None \<Rightarrow> None
         | Some (v, r) \<Rightarrow> map_option (Cons v) (literals r))
      else if c = CHR ''-'' \<and> cs \<noteq> [] \<and> hd cs = CHR ''-'' then
        literals (dropWhile (\<lambda>x. x \<noteq> CHR 0x0A) cs)
      else literals cs)"
  by pat_completeness auto
termination
proof (relation "measure length")
  show "wf (measure length)" by simp
next
  fix c cs x v r
  have shorter: "lex_lit cs = Some (v, r) \<Longrightarrow> length r < length cs" for cs v r
    by (induction cs arbitrary: v r rule: lex_lit.induct)
       (fastforce split: if_splits list.splits)+
  assume "lex_lit cs = Some x" "(v, r) = x"
  then show "(r, c # cs) \<in> measure length" by (auto dest: shorter)
next
  fix c :: char and cs :: string
  have "length (dropWhile (\<lambda>x. x \<noteq> CHR 0x0A) cs) \<le> length cs" by (rule length_dropWhile_le)
  then show "(dropWhile (\<lambda>x. x \<noteq> CHR 0x0A) cs, c # cs) \<in> measure length" by simp
next
  fix c :: char and cs :: string
  show "(cs, c # cs) \<in> measure length" by simp
qed

section \<open>Round trips and injection\<close>


lemma lex_lit_plain:
  "sq \<notin> set v \<Longrightarrow> (r = [] \<or> hd r \<noteq> sq) \<Longrightarrow> lex_lit (v @ sq # r) = Some (v, r)"
  by (induction v) (auto split: list.splits)

lemma literals_plain:
  "sq \<notin> set t \<Longrightarrow> CHR ''-'' \<notin> set t \<Longrightarrow> literals (t @ r) = literals r"
  by (induction t) (auto simp: sq_def)

lemma sq_not_in_select: "sq \<notin> set lookup_select \<and> CHR ''-'' \<notin> set lookup_select"
  by (simp add: lookup_select_def sq_def)

lemmas sql_text_simps = sq_def lex_lit_plain [unfolded sq_def] sql_lit_def

text \<open>
  C29: Round trip of the duplicate check of line 88: for a student ID and a
  date text without a quote character, the database reads back exactly the
  two values the code interpolated, in order.
\<close>

theorem check_sql_roundtrip:
  "sq \<notin> set s \<Longrightarrow> sq \<notin> set ds \<Longrightarrow> literals (check_sql s ds) = Some [s, ds]"
  unfolding check_sql_def append_assoc by (simp add: sql_text_simps)

lemma applycount_sql_roundtrip:
  "sq \<notin> set ds \<Longrightarrow> literals (applycount_sql ds) = Some [ds]"
  unfolding applycount_sql_def append_assoc by (simp add: sql_text_simps)

text \<open>
  C30: Round trip of the insert of line 93: for quote-free name, ID, date,
  timestamp and PIN the database reads back the five values in the order of
  the column list.
\<close>

theorem apply_sql_roundtrip:
  "sq \<notin> set n \<Longrightarrow> sq \<notin> set s \<Longrightarrow> sq \<notin> set ds \<Longrightarrow> sq \<notin> set ts \<Longrightarrow> sq \<notin> set p \<Longrightarrow>
   literals (apply_sql n s ds ts p) = Some [n, s, ds, ts, p]"
  unfolding apply_sql_def append_assoc by (simp add: sql_text_simps)

text \<open>
  C31: Round trip of the lookup/cancel query of lines 121 and 141: for
  quote-free ID, date and PIN the database reads back exactly ID, date and
  PIN, so the PIN comparison is part of the query.
\<close>

theorem lookup_sql_roundtrip:
  "sq \<notin> set s \<Longrightarrow> sq \<notin> set ds \<Longrightarrow> sq \<notin> set p \<Longrightarrow> literals (lookup_sql s ds p) = Some [s, ds, p]"
  unfolding lookup_sql_def append_assoc
  using sq_not_in_select by (simp add: sql_text_simps literals_plain [unfolded sq_def])

text \<open>
  C28: SQL injection through the student ID. The 10-character ID
  \<^verbatim>\<open>x'OR 1=1--\<close> passes the length checks of the form, and in the lookup/cancel
  query built from it the database reads only the literal \<^verbatim>\<open>x\<close>: the rest of
  the line, the date and the PIN comparison included, is a comment, for every
  PIN without a line break.
\<close>

theorem lookup_sql_injection:
  assumes "CHR 0x0A \<notin> set p"
  shows "length (''x'' @ [sq] @ ''OR 1=1--'') = 10 \<and> check_format (''x'' @ [sq] @ ''OR 1=1--'') ''1234'' = None \<and>
   literals (lookup_sql (''x'' @ [sq] @ ''OR 1=1--'') ''2023-03-07'' p) = Some [''x'']"
proof -
  from assms have "\<forall>x\<in>set p. x \<noteq> CHR 0x0A" by blast
  then show ?thesis
    unfolding lookup_sql_def append_assoc using sq_not_in_select
    by (simp add: sql_text_simps literals_plain [unfolded sq_def] check_format_def dropWhile_append)
qed

theorem check_sql_roundtrip_witness:
  "literals (check_sql ''2023-00001'' ''2023-03-07'') = Some [''2023-00001'', ''2023-03-07'']"
  using check_sql_roundtrip [of "''2023-00001''" "''2023-03-07''"] by (simp add: sq_def)

theorem apply_sql_roundtrip_witness:
  "literals (apply_sql ''Hong'' ''2023-00001'' ''2023-03-07'' ''2023-03-06 12:00:00+09:00'' ''1234'') =
   Some [''Hong'', ''2023-00001'', ''2023-03-07'', ''2023-03-06 12:00:00+09:00'', ''1234'']"
  using apply_sql_roundtrip [of "''Hong''" "''2023-00001''" "''2023-03-07''"
      "''2023-03-06 12:00:00+09:00''" "''1234''"] by (simp add: sq_def)

theorem lookup_sql_roundtrip_witness:
  "literals (lookup_sql ''2023-00001'' ''2023-03-07'' ''1234'') = Some [''2023-00001'', ''2023-03-07'', ''1234'']"
  using lookup_sql_roundtrip [of "''2023-00001''" "''2023-03-07''" "''1234''"] by (simp add: sq_def)

theorem lookup_sql_injection_witness:
  "literals (lookup_sql (''x'' @ [sq] @ ''OR 1=1--'') ''2023-03-07'' ''0000'') = Some [''x''] \<and>
   check_format (''x'' @ [sq] @ ''OR 1=1--'') ''1234'' = None"
  using lookup_sql_injection [of "''0000''"] by simp

end
