(* ===== verification/Calendar.thy ===== *)
theory Calendar
  imports Schedule
begin

text \<open>
  The date text of the script. Line 60 writes the selected session as
  \<^verbatim>\<open>date_string = i.strftime("%Y-%m-%d")\<close>; the text appears in the page
  titles and in every SQL statement, where the database reads it back as a
  value of the \<^verbatim>\<open>date\<close> column \<^verbatim>\<open>attend_date\<close>. A day is a KST day number
  (\<open>kst_day\<close>, days since 1970-01-01); \<open>ymd_of_day\<close> is the proleptic Gregorian
  calendar of Python's \<^verbatim>\<open>date\<close> (years 1 to 9999, \<open>None\<close> outside, where
  Python has no \<^verbatim>\<open>datetime\<close>), walking 400-year cycles and then years and
  months; \<open>days_before_year\<close> is Python's \<^verbatim>\<open>_days_before_year\<close>.
  \<open>strftime_ymd\<close> writes the year unpadded (glibc \<^verbatim>\<open>%Y\<close>) and month and day
  with two digits; \<open>text_date\<close> is how the database reads such a text
  (three dash-separated digit fields, validated against the calendar).
\<close>

section \<open>Calendar\<close>

definition leap_year :: "nat \<Rightarrow> bool" where
  "leap_year y \<longleftrightarrow> y mod 4 = 0 \<and> (y mod 100 \<noteq> 0 \<or> y mod 400 = 0)"

definition year_days :: "nat \<Rightarrow> nat" where
  "year_days y = (if leap_year y then 366 else 365)"

definition month_lengths :: "nat \<Rightarrow> nat list" where
  "month_lengths y = [31, if leap_year y then 29 else 28, 31, 30, 31, 30, 31, 31, 30, 31, 30, 31]"

definition days_before_year :: "nat \<Rightarrow> nat" where
  "days_before_year y = (let z = y - 1 in z * 365 + z div 4 - z div 100 + z div 400)"

function year_split :: "nat \<Rightarrow> nat \<Rightarrow> nat \<times> nat" where
  "year_split y n =
     (if 146097 \<le> n then year_split (y + 400) (n - 146097)
      else if n < year_days y then (y, n) else year_split (Suc y) (n - year_days y))"
  by auto
termination
  by (relation "measure snd") (auto simp: year_days_def)

fun month_walk :: "nat list \<Rightarrow> nat \<Rightarrow> nat \<Rightarrow> nat \<times> nat" where
  "month_walk [] m n = (m, n)"
| "month_walk (l # ls) m n = (if n < l then (m, n) else month_walk ls (Suc m) (n - l))"

definition ymd_of_day :: "day \<Rightarrow> (nat \<times> nat \<times> nat) option" where
  "ymd_of_day d =
     (if d < -719162 \<or> 2932896 < d then None
      else case year_split 1 (nat (d + 719162)) of
        (y, r) \<Rightarrow> (case month_walk (month_lengths y) 1 r of (m, k) \<Rightarrow> Some (y, m, Suc k)))"

section \<open>Writing and reading the date text\<close>

definition digit :: "nat \<Rightarrow> char" where
  "digit k = ''0123456789'' ! k"

function show_nat :: "nat \<Rightarrow> string" where
  "show_nat n = (if n < 10 then [digit n] else show_nat (n div 10) @ [digit (n mod 10)])"
  by auto
termination
  by (relation "measure id") auto

definition pad2 :: "nat \<Rightarrow> string" where
  "pad2 n = [digit (n div 10), digit (n mod 10)]"

definition strftime_ymd :: "nat \<times> nat \<times> nat \<Rightarrow> string" where
  "strftime_ymd ymd = (case ymd of (y, m, d) \<Rightarrow> show_nat y @ CHR ''-'' # pad2 m @ CHR ''-'' # pad2 d)"

definition date_text :: "day \<Rightarrow> string option" where
  "date_text d = map_option strftime_ymd (ymd_of_day d)"

definition digit_val :: "char \<Rightarrow> nat option" where
  "digit_val c = map_of (zip ''0123456789'' [0, 1, 2, 3, 4, 5, 6, 7, 8, 9]) c"

fun read_digits :: "nat \<Rightarrow> string \<Rightarrow> nat option" where
  "read_digits acc [] = Some acc"
| "read_digits acc (c # cs) = (case digit_val c of None \<Rightarrow> None | Some v \<Rightarrow> read_digits (10 * acc + v) cs)"

definition read_field :: "string \<Rightarrow> nat option" where
  "read_field s = (if s = [] then None else read_digits 0 s)"

fun fields :: "char \<Rightarrow> string \<Rightarrow> string \<Rightarrow> string list" where
  "fields sep cur [] = [cur]"
| "fields sep cur (c # cs) = (if c = sep then cur # fields sep [] cs else fields sep (cur @ [c]) cs)"

definition valid_ymd :: "nat \<Rightarrow> nat \<Rightarrow> nat \<Rightarrow> bool" where
  "valid_ymd y m d \<longleftrightarrow> 0 < y \<and> 0 < m \<and> m \<le> 12 \<and> 0 < d \<and> d \<le> month_lengths y ! (m - 1)"

definition day_of_ymd :: "nat \<Rightarrow> nat \<Rightarrow> nat \<Rightarrow> day" where
  "day_of_ymd y m d = int (days_before_year y + sum_list (take (m - 1) (month_lengths y)) + d) - 719163"

definition text_date :: "string \<Rightarrow> day option" where
  "text_date t =
     (case fields CHR ''-'' [] t of
        [a, b, c] \<Rightarrow>
          (case (read_field a, read_field b, read_field c) of
             (Some y, Some m, Some d) \<Rightarrow> if valid_ymd y m d then Some (day_of_ymd y m d) else None
           | _ \<Rightarrow> None)
      | _ \<Rightarrow> None)"

text \<open>
  Lines 91--93 write the registration time as \<^verbatim>\<open>str(apply_timestamp)\<close>, a
  KST \<^verbatim>\<open>datetime\<close>: the date text, a blank, the time of day and the offset
  \<^verbatim>\<open>+09:00\<close>. Instants are whole seconds, so the text has no fraction (as
  Python writes it when the microsecond is 0). \<open>text_timestamp\<close> is the
  database's reading of such a text into an instant; only offsets with a plus
  sign are read.
\<close>

definition ts_text :: "instant \<Rightarrow> string option" where
  "ts_text t =
     (let s = nat ((t + kst_offset) mod day_seconds) in
      map_option (\<lambda>dt. dt @ CHR '' '' # pad2 (s div 3600) @ CHR '':'' # pad2 (s mod 3600 div 60) @
                        CHR '':'' # pad2 (s mod 60) @ ''+09:00'')
        (date_text (kst_day t)))"

definition text_timestamp :: "string \<Rightarrow> instant option" where
  "text_timestamp x =
     (case fields CHR '' '' [] x of
        [a, b] \<Rightarrow>
          (case (text_date a, fields CHR ''+'' [] b) of
             (Some d, [tm, off]) \<Rightarrow>
               (case (map read_field (fields CHR '':'' [] tm), map read_field (fields CHR '':'' [] off)) of
                  ([Some h, Some m, Some sc], [Some oh, Some om]) \<Rightarrow>
                    if h < 24 \<and> m < 60 \<and> sc < 60 then
                      Some (d * 86400 + int (h * 3600 + m * 60 + sc) - int (oh * 3600 + om * 60))
                    else None
                | _ \<Rightarrow> None)
           | _ \<Rightarrow> None)
      | _ \<Rightarrow> None)"

section \<open>Lemmas\<close>

lemma mod_400_100: "(a::nat) mod 400 = 0 \<Longrightarrow> a mod 100 = 0"
proof -
  assume "a mod 400 = 0"
  then have "a mod 400 mod 100 = 0" by simp
  then show ?thesis by (simp add: mod_mod_cancel)
qed

lemma mod_100_4: "(a::nat) mod 100 = 0 \<Longrightarrow> a mod 4 = 0"
proof -
  assume "a mod 100 = 0"
  then have "a mod 100 mod 4 = 0" by simp
  then show ?thesis by (simp add: mod_mod_cancel)
qed

lemma days_before_year_Suc:
  "days_before_year (Suc (Suc z)) = days_before_year (Suc z) + year_days (Suc z)"
proof -
  have d4: "Suc z div 4 = z div 4 + (if Suc z mod 4 = 0 then 1 else 0)" by (simp add: div_Suc)
  have d100: "Suc z div 100 = z div 100 + (if Suc z mod 100 = 0 then 1 else 0)" by (simp add: div_Suc)
  have d400: "Suc z div 400 = z div 400 + (if Suc z mod 400 = 0 then 1 else 0)" by (simp add: div_Suc)
  obtain a b c where abc: "z div 4 = a" "z div 100 = b" "z div 400 = c" by blast
  have le: "b \<le> a" unfolding abc [symmetric] by (rule div_le_mono2) simp_all
  have unf: "days_before_year (Suc (Suc z)) = Suc z * 365 + Suc z div 4 - Suc z div 100 + Suc z div 400"
    "days_before_year (Suc z) = z * 365 + z div 4 - z div 100 + z div 400"
    by (simp_all add: days_before_year_def)
  consider "Suc z mod 400 = 0" | "Suc z mod 400 \<noteq> 0" "Suc z mod 100 = 0"
    | "Suc z mod 100 \<noteq> 0" "Suc z mod 4 = 0" | "Suc z mod 4 \<noteq> 0" by blast
  then show ?thesis
  proof cases
    case 1
    with mod_400_100 [of "Suc z"] mod_100_4 [of "Suc z"] show ?thesis
      unfolding unf d4 d100 d400 abc using le by (simp add: year_days_def leap_year_def)
  next
    case 2
    with mod_100_4 [of "Suc z"] show ?thesis
      unfolding unf d4 d100 d400 abc using le by (simp add: year_days_def leap_year_def)
  next
    case 3
    with mod_400_100 [of "Suc z"] have "Suc z mod 400 \<noteq> 0" by auto
    with 3 show ?thesis
      unfolding unf d4 d100 d400 abc using le by (simp add: year_days_def leap_year_def)
  next
    case 4
    with mod_100_4 [of "Suc z"] have h100: "Suc z mod 100 \<noteq> 0" by blast
    with mod_400_100 [of "Suc z"] have "Suc z mod 400 \<noteq> 0" by blast
    with 4 h100 show ?thesis
      unfolding unf d4 d100 d400 abc using le by (simp add: year_days_def leap_year_def)
  qed
qed

lemma days_before_year_400:
  "days_before_year (Suc z + 400) = days_before_year (Suc z) + 146097"
proof -
  obtain a b c where abc: "z div 4 = a" "z div 100 = b" "z div 400 = c" by blast
  have le: "b \<le> a" unfolding abc [symmetric] by (rule div_le_mono2) simp_all
  have "(400 + z) div 4 = a + 100" "(400 + z) div 100 = b + 4" "(400 + z) div 400 = c + 1"
    unfolding abc [symmetric] by simp_all
  with le show ?thesis by (simp add: days_before_year_def abc Let_def)
qed

lemma days_before_year_step:
  "0 < y \<Longrightarrow> days_before_year (Suc y) = days_before_year y + year_days y"
  using days_before_year_Suc [of "y - 1"] by simp

lemma days_before_year_cycle:
  "0 < y \<Longrightarrow> days_before_year (y + 400) = days_before_year y + 146097"
  using days_before_year_400 [of "y - 1"] by simp

declare year_split.simps [simp del]

lemma year_split_spec:
  "year_split y n = (y', r) \<Longrightarrow> 0 < y \<Longrightarrow>
   y \<le> y' \<and> r < year_days y' \<and> days_before_year y + n = days_before_year y' + r"
proof (induction y n rule: year_split.induct)
  case (1 y n)
  show ?case
  proof (cases "146097 \<le> n")
    case True
    with "1.prems" have "year_split (y + 400) (n - 146097) = (y', r)" by (simp add: year_split.simps)
    with "1.IH"(1) [OF True] "1.prems"(2) True show ?thesis by (simp add: days_before_year_cycle)
  next
    case cyc: False
    show ?thesis
    proof (cases "n < year_days y")
      case True
      with cyc "1.prems" show ?thesis by (simp add: year_split.simps)
    next
      case False
      with cyc "1.prems" have "year_split (Suc y) (n - year_days y) = (y', r)"
        by (simp add: year_split.simps)
      with "1.IH"(2) [OF cyc False] "1.prems"(2) False show ?thesis
        by (simp add: days_before_year_step)
    qed
  qed
qed

lemma month_walk_spec:
  "month_walk ls m n = (m', k) \<Longrightarrow> n < sum_list ls \<Longrightarrow>
   m \<le> m' \<and> m' - m < length ls \<and> k < ls ! (m' - m) \<and> n = sum_list (take (m' - m) ls) + k"
proof (induction ls arbitrary: m n)
  case Nil
  then show ?case by simp
next
  case (Cons l ls)
  show ?case
  proof (cases "n < l")
    case True
    with Cons.prems show ?thesis by simp
  next
    case False
    with Cons.prems have "month_walk ls (Suc m) (n - l) = (m', k)" "n - l < sum_list ls" by simp_all
    from Cons.IH [OF this] False have "Suc m \<le> m'" "m' - Suc m < length ls"
      "k < ls ! (m' - Suc m)" "n - l = sum_list (take (m' - Suc m) ls) + k" by simp_all
    moreover have "m' - m = Suc (m' - Suc m)" using \<open>Suc m \<le> m'\<close> by simp
    ultimately show ?thesis using False by simp
  qed
qed

lemma sum_month_lengths: "sum_list (month_lengths y) = year_days y"
  by (simp add: month_lengths_def year_days_def)

lemma days_before_year_1: "days_before_year (Suc 0) = 0"
  by (simp add: days_before_year_def)

lemma ymd_of_day_spec:
  assumes "ymd_of_day d = Some (y, m, dd)"
  shows "valid_ymd y m dd \<and> day_of_ymd y m dd = d"
proof -
  obtain r where ys: "year_split 1 (nat (d + 719162)) = (y, r)"
    and mw: "month_walk (month_lengths y) 1 r = (m, dd - 1)" and dd: "0 < dd"
    and rng: "\<not> (d < -719162 \<or> 2932896 < d)"
    using assms by (auto simp: ymd_of_day_def split: if_splits prod.splits)
  from year_split_spec [OF ys] have y: "0 < y" "r < year_days y"
    "nat (d + 719162) = days_before_year y + r" by (simp_all add: days_before_year_1)
  from month_walk_spec [OF mw] y(2) have m: "1 \<le> m" "m - 1 < 12"
    "dd - 1 < month_lengths y ! (m - 1)" "r = sum_list (take (m - 1) (month_lengths y)) + (dd - 1)"
    by (simp_all add: sum_month_lengths) (simp_all add: month_lengths_def)
  have "valid_ymd y m dd" using y(1) m(1-3) dd unfolding valid_ymd_def by linarith
  moreover have "days_before_year y + sum_list (take (m - 1) (month_lengths y)) + dd = nat (d + 719162) + 1"
    using y(3) m(4) dd by simp
  then have "day_of_ymd y m dd = d" using rng by (simp add: day_of_ymd_def)
  ultimately show ?thesis by simp
qed

lemma read_digits_append:
  "read_digits acc (xs @ ys) = (case read_digits acc xs of None \<Rightarrow> None | Some a \<Rightarrow> read_digits a ys)"
  by (induction xs arbitrary: acc) (auto split: option.splits)

lemma fields_plain: "sep \<notin> set xs \<Longrightarrow> fields sep cur (xs @ ys) = fields sep (cur @ xs) ys"
  by (induction xs arbitrary: cur) auto

declare show_nat.simps [simp del]

lemma digit_facts: "k < 10 \<Longrightarrow> digit_val (digit k) = Some k \<and> CHR ''-'' \<noteq> digit k"
proof -
  have "list_all (\<lambda>k. digit_val (digit k) = Some k \<and> CHR ''-'' \<noteq> digit k) [0..<10]"
    by (simp add: upt_rec digit_def digit_val_def)
  moreover assume "k < 10"
  ultimately show ?thesis by (simp add: list_all_iff)
qed

lemma show_nat_facts: "show_nat n \<noteq> [] \<and> CHR ''-'' \<notin> set (show_nat n) \<and> read_digits 0 (show_nat n) = Some n"
proof (induction n rule: show_nat.induct)
  case (1 n)
  show ?case
  proof (cases "n < 10")
    case True
    then show ?thesis using digit_facts [of n] by (simp add: show_nat.simps)
  next
    case False
    then have "show_nat n = show_nat (n div 10) @ [digit (n mod 10)]" by (simp add: show_nat.simps)
    moreover have "read_digits 0 (show_nat (n div 10) @ [digit (n mod 10)]) = Some n"
      using "1.IH" [OF False] digit_facts [of "n mod 10"] by (simp add: read_digits_append)
    ultimately show ?thesis using "1.IH" [OF False] digit_facts [of "n mod 10"] by simp
  qed
qed

lemma pad2_facts:
  "m < 100 \<Longrightarrow> pad2 m \<noteq> [] \<and> CHR ''-'' \<notin> set (pad2 m) \<and> read_digits 0 (pad2 m) = Some m"
  using digit_facts [of "m div 10"] digit_facts [of "m mod 10"] by (simp add: pad2_def)

lemma month_lengths_le: "i < 12 \<Longrightarrow> month_lengths y ! i \<le> 31"
proof -
  have "list_all (\<lambda>l. l \<le> 31) (month_lengths y)" by (simp add: month_lengths_def)
  moreover assume "i < 12"
  ultimately show ?thesis by (simp add: list_all_length month_lengths_def)
qed

lemma valid_ymd_bounds: "valid_ymd y m d \<Longrightarrow> m < 100 \<and> d < 100"
proof -
  assume "valid_ymd y m d"
  then have v: "0 < m" "m \<le> 12" "d \<le> month_lengths y ! (m - 1)" by (simp_all add: valid_ymd_def)
  then have "m - 1 < 12" by simp
  then have "month_lengths y ! (m - 1) \<le> 31" by (rule month_lengths_le)
  with v show ?thesis by simp
qed

lemma text_date_strftime:
  assumes "valid_ymd y m d"
  shows "text_date (strftime_ymd (y, m, d)) = Some (day_of_ymd y m d)"
proof -
  from valid_ymd_bounds [OF assms] have "m < 100" "d < 100" by simp_all
  then have p: "pad2 m \<noteq> []" "CHR ''-'' \<notin> set (pad2 m)" "read_digits 0 (pad2 m) = Some m"
    "pad2 d \<noteq> []" "CHR ''-'' \<notin> set (pad2 d)" "read_digits 0 (pad2 d) = Some d"
    using pad2_facts by blast+
  have "fields CHR ''-'' [] (strftime_ymd (y, m, d)) = [show_nat y, pad2 m, pad2 d]"
    using show_nat_facts [of y] p
    by (simp add: strftime_ymd_def fields_plain [where ys = "_ # _"] fields_plain [where ys = "[]", simplified])
  then show ?thesis using assms show_nat_facts [of y] p by (simp add: text_date_def read_field_def)
qed

lemma digit_mem: "k < 10 \<Longrightarrow> digit k \<in> set ''0123456789''"
  unfolding digit_def by (rule nth_mem) simp

lemma show_nat_set: "set (show_nat n) \<subseteq> set ''0123456789''"
proof (induction n rule: show_nat.induct)
  case (1 n)
  show ?case
  proof (cases "n < 10")
    case True
    then show ?thesis using digit_mem [of n] by (simp add: show_nat.simps [of n])
  next
    case False
    then show ?thesis using "1.IH" [OF False] digit_mem [of "n mod 10"]
      by (simp add: show_nat.simps [of n])
  qed
qed

lemma date_text_chars:
  assumes "date_text d = Some t"
  shows "set t \<subseteq> set ''0123456789-''"
proof -
  obtain y m dd where ymd: "ymd_of_day d = Some (y, m, dd)" and t: "t = strftime_ymd (y, m, dd)"
    using assms by (auto simp: date_text_def)
  from ymd_of_day_spec [OF ymd] valid_ymd_bounds have "m < 100" "dd < 100" by blast+
  then have "m div 10 < 10" "m mod 10 < 10" "dd div 10 < 10" "dd mod 10 < 10" by simp_all
  note digits = digit_mem [OF this(1)] digit_mem [OF this(2)] digit_mem [OF this(3)] digit_mem [OF this(4)]
  have sub: "set ''0123456789'' \<subseteq> set ''0123456789-''" "CHR ''-'' \<in> set ''0123456789-''" by simp_all
  have "set t = set (show_nat y) \<union> {CHR ''-'', digit (m div 10), digit (m mod 10), digit (dd div 10), digit (dd mod 10)}"
    by (auto simp: t strftime_ymd_def pad2_def)
  with sub show ?thesis using show_nat_set [of y] digits by blast
qed

lemmas calendar_eval = ymd_of_day_def month_lengths_def year_days_def leap_year_def year_split.simps

lemma date_text_eval: "ymd_of_day d = Some (y, m, dd) \<Longrightarrow> date_text d = Some (strftime_ymd (y, m, dd))"
  by (simp add: date_text_def)

lemma text_date_inverse: "date_text d = Some t \<Longrightarrow> text_date t = Some d"
  using ymd_of_day_spec text_date_strftime by (auto simp: date_text_def)

lemma pad2_set: "m < 100 \<Longrightarrow> set (pad2 m) \<subseteq> set ''0123456789''"
  using digit_mem [of "m div 10"] digit_mem [of "m mod 10"] by (simp add: pad2_def)

lemma fields_two:
  "sep \<notin> set a \<Longrightarrow> sep \<notin> set b \<Longrightarrow> fields sep [] (a @ sep # b) = [a, b]"
  using fields_plain [of sep a "[]" "sep # b"] fields_plain [of sep b "[]" "[]"] by simp

lemma fields_three:
  "sep \<notin> set a \<Longrightarrow> sep \<notin> set b \<Longrightarrow> sep \<notin> set c \<Longrightarrow> fields sep [] (a @ sep # b @ sep # c) = [a, b, c]"
  using fields_plain [of sep a "[]" "sep # b @ sep # c"] fields_two [of sep b c] by simp

lemma ts_text_roundtrip:
  assumes "ts_text t = Some x"
  shows "text_timestamp x = Some t"
proof -
  define S where "S = (t + kst_offset) mod day_seconds"
  define s where "s = nat S"
  define h where "h = s div 3600"
  define mi where "mi = s mod 3600 div 60"
  define sc where "sc = s mod 60"
  obtain dt where dt: "date_text (kst_day t) = Some dt"
    and x: "x = dt @ CHR '' '' # (pad2 h @ CHR '':'' # pad2 mi @ CHR '':'' # pad2 sc) @ ''+09:00''"
    using assms by (auto simp: ts_text_def Let_def S_def s_def h_def mi_def sc_def)
  have S: "0 \<le> S" "S < 86400" by (simp_all add: S_def day_seconds_def)
  then have "s < 86400" by (simp add: s_def)
  then have b: "h < 24" "mi < 60" "sc < 60" by (simp_all add: h_def mi_def sc_def)
  then have r: "read_field (pad2 h) = Some h" "read_field (pad2 mi) = Some mi" "read_field (pad2 sc) = Some sc"
    using pad2_facts [of h] pad2_facts [of mi] pad2_facts [of sc] by (simp_all add: read_field_def)
  have d: "set (pad2 h) \<subseteq> set ''0123456789''" "set (pad2 mi) \<subseteq> set ''0123456789''"
    "set (pad2 sc) \<subseteq> set ''0123456789''" using b pad2_set by simp_all
  have sep: "CHR '' '' \<notin> set ''0123456789''" "CHR '':'' \<notin> set ''0123456789''"
    "CHR ''+'' \<notin> set ''0123456789''" "CHR '' '' \<notin> set ''0123456789-''" by simp_all
  have f1: "fields CHR '' '' [] x = [dt, (pad2 h @ CHR '':'' # pad2 mi @ CHR '':'' # pad2 sc) @ ''+09:00'']"
    unfolding x using date_text_chars [OF dt] d sep by (intro fields_two) auto
  have f2: "fields CHR ''+'' [] ((pad2 h @ CHR '':'' # pad2 mi @ CHR '':'' # pad2 sc) @ ''+09:00'') =
      [pad2 h @ CHR '':'' # pad2 mi @ CHR '':'' # pad2 sc, ''09:00'']"
    using fields_two [of "CHR ''+''" "pad2 h @ CHR '':'' # pad2 mi @ CHR '':'' # pad2 sc" "''09:00''"] d sep
    by auto
  have f3: "fields CHR '':'' [] (pad2 h @ CHR '':'' # pad2 mi @ CHR '':'' # pad2 sc) = [pad2 h, pad2 mi, pad2 sc]"
    using d sep by (intro fields_three) auto
  have e1: "s div 3600 * 3600 + s mod 3600 = s" by (rule div_mult_mod_eq)
  have e2: "s mod 3600 div 60 * 60 + s mod 3600 mod 60 = s mod 3600" by (rule div_mult_mod_eq)
  have e3: "s mod 3600 mod 60 = s mod 60" by (simp add: mod_mod_cancel)
  have hms: "h * 3600 + mi * 60 + sc = s" unfolding h_def mi_def sc_def using e1 e2 e3 by linarith
  have "t + kst_offset = kst_day t * day_seconds + S"
    by (simp add: S_def kst_day_def)
  then have "kst_day t * 86400 + int (h * 3600 + mi * 60 + sc) - int (9 * 3600 + 0 * 60) = t"
    unfolding hms using S by (simp add: s_def kst_offset_def day_seconds_def)
  then show ?thesis
    using b r f1 f2 f3 text_date_inverse [OF dt]
    by (simp add: text_timestamp_def read_field_def digit_val_def)
qed

lemma ts_text_chars:
  assumes "ts_text t = Some x"
  shows "set x \<subseteq> set ''0123456789-: +''"
proof -
  define s where "s = nat ((t + kst_offset) mod day_seconds)"
  obtain dt where dt: "date_text (kst_day t) = Some dt"
    and x: "x = dt @ CHR '' '' # pad2 (s div 3600) @ CHR '':'' # pad2 (s mod 3600 div 60) @
                CHR '':'' # pad2 (s mod 60) @ ''+09:00''"
    using assms by (auto simp: ts_text_def Let_def s_def)
  have "s < 86400" by (simp add: s_def day_seconds_def)
  then have "s div 3600 < 100" "s mod 3600 div 60 < 100" "s mod 60 < 100" by simp_all
  note pads = pad2_set [OF this(1)] pad2_set [OF this(2)] pad2_set [OF this(3)]
  define D where "D = set ''0123456789-: +''"
  have sub: "set ''0123456789'' \<subseteq> D" "set ''0123456789-'' \<subseteq> D" "set ''+09:00'' \<subseteq> D"
    "CHR '' '' \<in> D" "CHR '':'' \<in> D" by (simp_all add: D_def)
  have eq: "set x = set dt \<union> {CHR '' '', CHR '':''} \<union> set (pad2 (s div 3600)) \<union>
      set (pad2 (s mod 3600 div 60)) \<union> set (pad2 (s mod 60)) \<union> set ''+09:00''"
    unfolding x set_append set_simps(2) by blast
  have "set x \<subseteq> D" unfolding eq using sub pads date_text_chars [OF dt] by blast
  then show ?thesis unfolding D_def .
qed

text \<open>
  C32: Round trip of the date text of line 60: the text \<^verbatim>\<open>strftime("%Y-%m-%d")\<close>
  writes for a day is read back by the database as that day, and no other day
  has the same text. So the condition \<^verbatim>\<open>attend_date = '{date_string}'\<close> of the
  queries selects exactly the rows of the session's day.
\<close>

theorem date_text_roundtrip:
  "date_text d = Some t \<Longrightarrow> text_date t = Some d \<and> (\<forall>d'. date_text d' = Some t \<longrightarrow> d' = d)"
proof -
  assume t: "date_text d = Some t"
  then have td: "text_date t = Some d" by (rule text_date_inverse)
  have "d' = d" if "date_text d' = Some t" for d'
    using text_date_inverse [OF that] td by simp
  with td show ?thesis by blast
qed

theorem date_text_roundtrip_witness:
  "date_text 19423 = Some ''2023-03-07'' \<and> text_date ''2023-03-07'' = Some 19423"
proof -
  have "ymd_of_day 19423 = Some (2023, 3, 7)" by (simp add: calendar_eval)
  from date_text_eval [OF this] have t: "date_text 19423 = Some ''2023-03-07''"
    by (simp add: strftime_ymd_def pad2_def digit_def show_nat.simps)
  from conjunct1 [OF date_text_roundtrip [OF t]] t show ?thesis by (rule conjI [rotated])
qed

end
