(* ===== verification/Query.thy ===== *)
theory Query
  imports Sql Calendar
begin

text \<open>
  How the database reads the statement texts of theory \<open>Sql\<close>. This is a
  model of PostgreSQL, not code of the repository, restricted to the
  statement forms the script sends with literal values: a lexer (\<open>lex\<close>:
  words folded to lower case, string literals with doubled quotes, the
  symbols, \<^verbatim>\<open>--\<close> comments), a \<^verbatim>\<open>WHERE\<close> clause that is a disjunction of
  conjunctions of comparisons \<open>column = value\<close> or \<open>number = number\<close>
  (\<open>compile_where\<close>; AND binds tighter than OR), and the three statement
  kinds: \<open>select_rows\<close> (the rows a \<^verbatim>\<open>SELECT ... FROM apply WHERE\<close> selects, in
  table order), \<open>update_cancel\<close> (\<^verbatim>\<open>UPDATE apply SET canceled = True WHERE\<close>) and
  \<open>insert_rows\<close> (\<^verbatim>\<open>INSERT INTO apply (...) VALUES\<close> with one or more tuples). A
  literal compared with the date column is read with \<open>text_date\<close>, one for the
  timestamp column with \<open>text_timestamp\<close>, one compared with \<^verbatim>\<open>aid\<close> as a
  number; a text outside this grammar, or a literal of the wrong form, gives
  \<open>None\<close>. The theorems show that for quote-free inputs each statement the
  script builds computes exactly the function theory \<open>Store\<close> uses for it.
\<close>

section \<open>Lexer\<close>

datatype token = TWord string | TStr string | TSym char

definition blanks :: string where
  "blanks = [CHR 0x20, CHR 0x0A, CHR 0x09, CHR 0x0D]"

definition syms :: string where
  "syms = ''=,()*;<>+-/''"

definition word_char :: "char \<Rightarrow> bool" where
  "word_char c \<longleftrightarrow> c \<noteq> sq \<and> c \<notin> set blanks \<and> c \<notin> set syms"

definition lower :: "char \<Rightarrow> char" where
  "lower c = (case map_of (zip ''ABCDEFGHIJKLMNOPQRSTUVWXYZ'' ''abcdefghijklmnopqrstuvwxyz'') c of
                None \<Rightarrow> c | Some l \<Rightarrow> l)"

function lex :: "string \<Rightarrow> token list option" where
  "lex [] = Some []"
| "lex (c # cs) =
     (if c = sq then
        (case lex_lit cs of
           None \<Rightarrow> None
         | Some (v, r) \<Rightarrow> map_option (Cons (TStr v)) (lex r))
      else if c = CHR ''-'' \<and> cs \<noteq> [] \<and> hd cs = CHR ''-'' then
        lex (dropWhile (\<lambda>x. x \<noteq> CHR 0x0A) cs)
      else if c \<in> set blanks then lex cs
      else if c \<in> set syms then map_option (Cons (TSym c)) (lex cs)
      else map_option (Cons (TWord (map lower (c # takeWhile word_char cs)))) (lex (dropWhile word_char cs)))"
  by pat_completeness auto
termination
proof (relation "measure length")
  show "wf (measure length)" by simp
next
  fix c cs x v r
  have shorter: "lex_lit cs = Some (v, r) \<Longrightarrow> length r < length cs" for cs v r
    by (induction cs arbitrary: v r rule: lex_lit.induct)
       (fastforce split: if_splits list.splits)+
  assume "c = sq" "lex_lit cs = Some x" "(v, r) = x"
  then show "(r, c # cs) \<in> measure length" by (auto dest: shorter)
next
  fix c :: char and cs :: string
  have "length (dropWhile (\<lambda>x. x \<noteq> CHR 0x0A) cs) \<le> length cs" by (rule length_dropWhile_le)
  then show "(dropWhile (\<lambda>x. x \<noteq> CHR 0x0A) cs, c # cs) \<in> measure length" by simp
next
  fix c :: char and cs :: string
  show "(cs, c # cs) \<in> measure length" by simp
next
  fix c :: char and cs :: string
  show "(cs, c # cs) \<in> measure length" by simp
next
  fix c :: char and cs :: string
  have "length (dropWhile word_char cs) \<le> length cs" by (rule length_dropWhile_le)
  then show "(dropWhile word_char cs, c # cs) \<in> measure length" by simp
qed

section \<open>Statements\<close>

fun split_kw :: "string \<Rightarrow> token list \<Rightarrow> token list list" where
  "split_kw k [] = [[]]"
| "split_kw k (t # ts) =
     (if t = TWord k then [] # split_kw k ts
      else (case split_kw k ts of g # gs \<Rightarrow> (t # g) # gs | [] \<Rightarrow> [[t]]))"

definition col_test :: "string \<Rightarrow> token \<Rightarrow> (apply_row \<Rightarrow> bool) option" where
  "col_test c v =
     (case v of
        TStr x \<Rightarrow>
          if c = ''sid'' then Some (\<lambda>r. sid r = x)
          else if c = ''sname'' then Some (\<lambda>r. sname r = x)
          else if c = ''secret'' then Some (\<lambda>r. secret r = x)
          else if c = ''attend_date'' then map_option (\<lambda>d r. attend_date r = d) (text_date x)
          else if c = ''aid'' then map_option (\<lambda>n r. aid r = n) (read_field x)
          else None
      | TWord w \<Rightarrow>
          if c = ''canceled'' \<and> w = ''false'' then Some (\<lambda>r. \<not> canceled r)
          else if c = ''canceled'' \<and> w = ''true'' then Some canceled
          else (case (read_field c, read_field w) of
                  (Some m, Some n) \<Rightarrow> Some (\<lambda>r. m = n)
                | _ \<Rightarrow> None)
      | TSym _ \<Rightarrow> None)"

fun compile_cmp :: "token list \<Rightarrow> (apply_row \<Rightarrow> bool) option" where
  "compile_cmp [TWord c, TSym e, v] = (if e = CHR ''='' then col_test c v else None)"
| "compile_cmp _ = None"

definition compile_where :: "token list \<Rightarrow> (apply_row \<Rightarrow> bool) option" where
  "compile_where toks =
     (case those (map (\<lambda>g. those (map compile_cmp (split_kw ''and'' g))) (split_kw ''or'' toks)) of
        None \<Rightarrow> None
      | Some pss \<Rightarrow> Some (\<lambda>r. list_ex (\<lambda>ps. list_all (\<lambda>P. P r) ps) pss))"

definition select_rows :: "string \<Rightarrow> db \<Rightarrow> apply_row list option" where
  "select_rows q db =
     (case lex q of
        None \<Rightarrow> None
      | Some toks \<Rightarrow>
          (let post = dropWhile (\<lambda>t. t \<noteq> TWord ''from'') toks in
           if take 1 toks = [TWord ''select''] \<and> take 3 post = [TWord ''from'', TWord ''apply'', TWord ''where'']
           then map_option (\<lambda>P. filter P (rows db)) (compile_where (drop 3 post)) else None))"

definition update_cancel :: "string \<Rightarrow> db \<Rightarrow> db option" where
  "update_cancel q db =
     (case lex q of
        None \<Rightarrow> None
      | Some toks \<Rightarrow>
          if take 7 toks = [TWord ''update'', TWord ''apply'', TWord ''set'', TWord ''canceled'',
                            TSym CHR ''='', TWord ''true'', TWord ''where'']
          then map_option (\<lambda>P. db\<lparr>rows := map (\<lambda>r. if P r then r\<lparr>canceled := True\<rparr> else r) (rows db)\<rparr>)
                 (compile_where (drop 7 toks))
          else None)"

definition insert_header :: "token list" where
  "insert_header =
     [TWord ''insert'', TWord ''into'', TWord ''apply'', TSym CHR ''('', TWord ''sname'', TSym CHR '','',
      TWord ''sid'', TSym CHR '','', TWord ''attend_date'', TSym CHR '','', TWord ''apply_timestamp'',
      TSym CHR '','', TWord ''secret'', TSym CHR '')'', TWord ''values'']"

fun value_tuples :: "token list \<Rightarrow> string list list option" where
  "value_tuples (TSym a # TStr v1 # TSym c1 # TStr v2 # TSym c2 # TStr v3 # TSym c3 # TStr v4 # TSym c4 #
                 TStr v5 # TSym b # rest) =
     (if a = CHR ''('' \<and> c1 = CHR '','' \<and> c2 = CHR '','' \<and> c3 = CHR '','' \<and> c4 = CHR '','' \<and> b = CHR '')'' then
        (case rest of
           [] \<Rightarrow> Some [[v1, v2, v3, v4, v5]]
         | TSym c # rest' \<Rightarrow>
             if c = CHR '','' then map_option (Cons [v1, v2, v3, v4, v5]) (value_tuples rest') else None
         | _ \<Rightarrow> None)
      else None)"
| "value_tuples _ = None"

definition row_values :: "nat \<Rightarrow> string list \<Rightarrow> apply_row option" where
  "row_values a vs =
     (case vs of
        [n, s, dt, tt, p] \<Rightarrow>
          (case (text_date dt, text_timestamp tt) of
             (Some d, Some t) \<Rightarrow> Some (new_row a n s d t p)
           | _ \<Rightarrow> None)
      | _ \<Rightarrow> None)"

definition insert_rows :: "string \<Rightarrow> db \<Rightarrow> db option" where
  "insert_rows q db =
     (case lex q of
        None \<Rightarrow> None
      | Some toks \<Rightarrow>
          if take 15 toks = insert_header then
            (case value_tuples (drop 15 toks) of
               None \<Rightarrow> None
             | Some vss \<Rightarrow>
                 map_option
                   (\<lambda>new. db\<lparr>rows := rows db @ new, next_aid := next_aid db + length vss\<rparr>)
                   (those (map (\<lambda>(a, vs). row_values a vs) (zip [next_aid db..<next_aid db + length vss] vss))))
          else None)"

section \<open>The statements of the script\<close>

lemmas sql_lex_simps = sq_def lex_lit_plain [unfolded sq_def] sql_lit_def blanks_def syms_def word_char_def lower_def

lemma date_text_safe: "date_text d = Some t \<Longrightarrow> sq \<notin> set t \<and> CHR 0x0A \<notin> set t"
proof -
  assume "date_text d = Some t"
  then have "set t \<subseteq> set ''0123456789-''" by (rule date_text_chars)
  moreover have "sq \<notin> set ''0123456789-''" "CHR 0x0A \<notin> set ''0123456789-''" by (simp_all add: sq_def)
  ultimately show ?thesis by blast
qed

lemma show_nat_safe: "sq \<notin> set (show_nat n) \<and> read_field (show_nat n) = Some n"
proof -
  have "sq \<notin> set ''0123456789''" by (simp add: sq_def)
  then show ?thesis using show_nat_set [of n] show_nat_facts [of n] by (auto simp: read_field_def)
qed

lemma lookup_sql_exec:
  "sq \<notin> set s \<Longrightarrow> sq \<notin> set p \<Longrightarrow> date_text d = Some ds \<Longrightarrow>
   select_rows (lookup_sql s ds p) db = Some (check_secret s d p db)"
  using date_text_safe [of d ds] text_date_inverse [of d ds]
  unfolding select_rows_def lookup_sql_def lookup_select_def append_assoc
  by (simp add: sql_lex_simps compile_where_def col_test_def check_secret_def)

lemma check_sql_exec:
  "sq \<notin> set s \<Longrightarrow> date_text d = Some ds \<Longrightarrow> select_rows (check_sql s ds) db = Some (check_apply s d db)"
  using date_text_safe [of d ds] text_date_inverse [of d ds]
  unfolding select_rows_def check_sql_def append_assoc
  by (simp add: sql_lex_simps compile_where_def col_test_def check_apply_def)

lemma applycount_sql_exec:
  "date_text d = Some ds \<Longrightarrow> map_option length (select_rows (applycount_sql ds) db) = Some (applycount d db)"
  using date_text_safe [of d ds] text_date_inverse [of d ds]
  unfolding select_rows_def applycount_sql_def append_assoc
  by (simp add: sql_lex_simps compile_where_def col_test_def applycount_def)

lemma cancel_sql_exec: "update_cancel (cancel_sql (show_nat a)) db = Some (cancel_update a db)"
  using show_nat_safe [of a]
  unfolding update_cancel_def cancel_sql_def append_assoc
  by (simp add: sql_lex_simps compile_where_def col_test_def cancel_update_def)

lemma apply_sql_exec:
  "quote_free n \<Longrightarrow> quote_free s \<Longrightarrow> quote_free p \<Longrightarrow> date_text d = Some ds \<Longrightarrow> ts_text ts = Some tt \<Longrightarrow>
   insert_rows (apply_sql n s ds tt p) db = Some (apply_insert n s d ts p db)"
proof -
  assume q: "quote_free n" "quote_free s" "quote_free p" and dt: "date_text d = Some ds"
    and tt: "ts_text ts = Some tt"
  have "sq \<notin> set tt" using ts_text_chars [OF tt] by (auto simp: sq_def)
  then show ?thesis
    using q date_text_safe [OF dt] text_date_inverse [OF dt] ts_text_roundtrip [OF tt]
    unfolding insert_rows_def apply_sql_def append_assoc
    by (simp add: sql_lex_simps quote_free_def insert_header_def row_values_def apply_insert_def)
qed

lemma lookup_sql_injected_exec:
  "CHR 0x0A \<notin> set ds \<Longrightarrow> CHR 0x0A \<notin> set p \<Longrightarrow>
   select_rows (lookup_sql (''x'' @ [sq] @ ''OR 1=1--'') ds p) db = Some (rows db)"
proof -
  assume "CHR 0x0A \<notin> set ds" "CHR 0x0A \<notin> set p"
  then have "\<forall>x\<in>set ds. x \<noteq> CHR 0x0A" "\<forall>x\<in>set p. x \<noteq> CHR 0x0A" by blast+
  then show ?thesis
    unfolding select_rows_def lookup_sql_def lookup_select_def append_assoc
    by (simp add: sql_lex_simps compile_where_def col_test_def dropWhile_append read_field_def digit_val_def)
qed

lemma apply_sql_injected_exec:
  "quote_free s \<Longrightarrow> quote_free p \<Longrightarrow> date_text d = Some ds \<Longrightarrow> ts_text ts = Some tt \<Longrightarrow>
   insert_rows (apply_sql (''A'' @ [sq] @ '','' @ [sq] @ s @ [sq] @ '','' @ [sq] @ ds @ [sq] @ '','' @ [sq] @ tt @
       [sq] @ '','' @ [sq] @ ''0000'' @ [sq] @ ''),('' @ [sq] @ ''B'') s ds tt p) db =
   Some (db\<lparr>rows := rows db @ [new_row (next_aid db) ''A'' s d ts ''0000'', new_row (Suc (next_aid db)) ''B'' s d ts p],
            next_aid := next_aid db + 2\<rparr>)"
proof -
  assume q: "quote_free s" "quote_free p" and dt: "date_text d = Some ds" and tt: "ts_text ts = Some tt"
  have "sq \<notin> set tt" using ts_text_chars [OF tt] by (auto simp: sq_def)
  then show ?thesis
    using q date_text_safe [OF dt] text_date_inverse [OF dt] ts_text_roundtrip [OF tt]
    unfolding insert_rows_def apply_sql_def append_assoc
    by (simp add: sql_lex_simps quote_free_def insert_header_def row_values_def upt_rec)
qed

lemma sample_texts:
  "date_text 19423 = Some ''2023-03-07'' \<and> date_text 19425 = Some ''2023-03-09'' \<and>
   ts_text 1678071600 = Some ''2023-03-06 12:00:00+09:00''"
proof -
  have "ymd_of_day 19425 = Some (2023, 3, 9)" by (simp add: calendar_eval)
  from date_text_eval [OF this] have d9: "date_text 19425 = Some ''2023-03-09''"
    by (simp add: strftime_ymd_def pad2_def digit_def show_nat.simps)
  have "ymd_of_day 19423 = Some (2023, 3, 7)" by (simp add: calendar_eval)
  from date_text_eval [OF this] have d: "date_text 19423 = Some ''2023-03-07''"
    by (simp add: strftime_ymd_def pad2_def digit_def show_nat.simps)
  have "ymd_of_day 19422 = Some (2023, 3, 6)" by (simp add: calendar_eval)
  from date_text_eval [OF this] have "date_text 19422 = Some ''2023-03-06''"
    by (simp add: strftime_ymd_def pad2_def digit_def show_nat.simps)
  moreover have "kst_day 1678071600 = 19422" by (simp add: schedule_consts)
  ultimately have "ts_text 1678071600 = Some ''2023-03-06 12:00:00+09:00''"
    by (simp add: ts_text_def Let_def kst_offset_def day_seconds_def pad2_def digit_def)
  with d d9 show ?thesis by simp
qed

text \<open>
  C33: For quote-free name, student ID and PIN, each statement the script
  builds computes, on any table, exactly the function theory \<open>Store\<close> uses for
  it: the count of line 69, the duplicate check of line 88 (ID against
  \<^verbatim>\<open>sid\<close>, date against \<^verbatim>\<open>attend_date\<close>), the insert of line 93 (one row with
  the next \<^verbatim>\<open>aid\<close>), the lookup of lines 121/141 and the cancel of line 148.
\<close>

theorem statements_execute:
  assumes "quote_free n" "quote_free s" "quote_free p" "date_text d = Some ds" "ts_text ts = Some tt"
  shows "map_option length (select_rows (applycount_sql ds) db) = Some (applycount d db) \<and>
    select_rows (check_sql s ds) db = Some (check_apply s d db) \<and>
    insert_rows (apply_sql n s ds tt p) db = Some (apply_insert n s d ts p db) \<and>
    select_rows (lookup_sql s ds p) db = Some (check_secret s d p db) \<and>
    update_cancel (cancel_sql (show_nat a)) db = Some (cancel_update a db)"
  using applycount_sql_exec [OF assms(4)] check_sql_exec [OF _ assms(4)] apply_sql_exec [OF assms]
    lookup_sql_exec [OF _ _ assms(4)] cancel_sql_exec assms(2,3)
  by (simp add: quote_free_def)

theorem statements_execute_witness:
  "map_option length (select_rows (applycount_sql ''2023-03-07'') empty_db) = Some (applycount 19423 empty_db) \<and>
   select_rows (check_sql ''2023-00001'' ''2023-03-07'') empty_db = Some (check_apply ''2023-00001'' 19423 empty_db) \<and>
   insert_rows (apply_sql ''Hong'' ''2023-00001'' ''2023-03-07'' ''2023-03-06 12:00:00+09:00'' ''1234'') empty_db =
     Some (apply_insert ''Hong'' ''2023-00001'' 19423 1678071600 ''1234'' empty_db) \<and>
   select_rows (lookup_sql ''2023-00001'' ''2023-03-07'' ''1234'') empty_db =
     Some (check_secret ''2023-00001'' 19423 ''1234'' empty_db) \<and>
   update_cancel (cancel_sql (show_nat 1)) empty_db = Some (cancel_update 1 empty_db)"
  by (rule statements_execute) (simp_all add: quote_free_def sq_def sample_texts)

end
