(* ===== verification/PageSql.thy ===== *)
theory PageSql
  imports Query
begin

text \<open>
  The page as it runs against the database: the same script as theory
  \<open>Page\<close>, but every database call sends the statement text of theory \<open>Sql\<close>
  and its effect is the database's reading of that text (theory \<open>Query\<close>).
  \<open>run_query_sql\<close> and \<open>run_tx_sql\<close> are the helpers of lines 15--40; a text the
  database rejects is an exception with the table unchanged, like a failing
  connection. The date text and the timestamp text are those of theory
  \<open>Calendar\<close>; \<open>page_run_sql\<close> is \<open>None\<close> only for a day or an instant outside
  the range of Python's \<^verbatim>\<open>datetime\<close>, which the script cannot produce.

  For requests without a quote character the run equals the run of theory
  \<open>Page\<close> (C34), so every property proved there for quote-free requests holds
  of the statements the script really sends. For inputs with a quote the run
  differs: an injected student ID turns the lookup and cancel into
  statements over the whole table (C36, C37), and an injected name makes one
  registration insert two active rows for one student (C35).
\<close>

section \<open>Database calls with statement texts\<close>

definition run_query_sql :: "bool \<Rightarrow> string \<Rightarrow> db \<Rightarrow> py_error + apply_row list" where
  "run_query_sql ok q db =
     (if ok then (case select_rows q db of None \<Rightarrow> Inl DBError | Some rs \<Rightarrow> Inr rs) else Inl DBError)"

definition exec_write :: "string \<Rightarrow> db \<Rightarrow> db option" where
  "exec_write q db = (case insert_rows q db of Some db' \<Rightarrow> Some db' | None \<Rightarrow> update_cancel q db)"

definition run_tx_sql :: "bool \<Rightarrow> string \<Rightarrow> db \<Rightarrow> py_error + db" where
  "run_tx_sql ok q db =
     (if ok then (case exec_write q db of None \<Rightarrow> Inl DBError | Some db' \<Rightarrow> Inr db') else Inl DBError)"

section \<open>The forms and the page\<close>

definition apply_form_sql ::
  "(nat \<Rightarrow> bool) \<Rightarrow> string \<Rightarrow> string \<Rightarrow> string \<Rightarrow> string \<Rightarrow> string \<Rightarrow> db \<Rightarrow> outcome" where
  "apply_form_sql net ds tt n s p db =
     (if n \<noteq> [] \<and> s \<noteq> [] \<and> p \<noteq> [] then
        (case check_format s p of
           Some m \<Rightarrow> emit [m] db
         | None \<Rightarrow>
             (case run_query_sql (net 1) (check_sql s ds) db of
                Inl e \<Rightarrow> abort [] e db
              | Inr found \<Rightarrow>
                  if found = [] then
                    (case run_tx_sql (net 2) (apply_sql n s ds tt p) db of
                       Inl e \<Rightarrow> abort [] e db
                     | Inr db' \<Rightarrow> emit [ApplyDone] db')
                  else emit [ErrDuplicate] db))
      else emit [ErrMissing] db)"

definition lookup_form_sql :: "(nat \<Rightarrow> bool) \<Rightarrow> string \<Rightarrow> string \<Rightarrow> string \<Rightarrow> db \<Rightarrow> outcome" where
  "lookup_form_sql net ds s p db =
     (if s \<noteq> [] \<and> p \<noteq> [] then
        (case check_format s p of
           Some m \<Rightarrow> emit [m] db
         | None \<Rightarrow>
             (case run_query_sql (net 1) (lookup_sql s ds p) db of
                Inl e \<Rightarrow> abort [] e db
              | Inr found \<Rightarrow>
                  if found = [] then emit [ErrNoRecord] db
                  else
                    (case run_query_sql (net 2) (lookup_sql s ds p) db of
                       Inl e \<Rightarrow> abort [LookupDone] e db
                     | Inr again \<Rightarrow> emit [LookupDone, ShowTable (map lookup_cols again)] db)))
      else emit [ErrMissing] db)"

definition cancel_form_sql :: "(nat \<Rightarrow> bool) \<Rightarrow> string \<Rightarrow> string \<Rightarrow> string \<Rightarrow> db \<Rightarrow> outcome" where
  "cancel_form_sql net ds s p db =
     (if s \<noteq> [] \<and> p \<noteq> [] then
        (case check_format s p of
           Some m \<Rightarrow> emit [m] db
         | None \<Rightarrow>
             (case run_query_sql (net 1) (lookup_sql s ds p) db of
                Inl e \<Rightarrow> abort [] e db
              | Inr [] \<Rightarrow> emit [ErrNoRecord] db
              | Inr (r # _) \<Rightarrow>
                  (case run_tx_sql (net 2) (cancel_sql (show_nat (aid r))) db of
                     Inl e \<Rightarrow> abort [] e db
                   | Inr db' \<Rightarrow> emit [CancelDone] db')))
      else emit [ErrMissing] db)"

definition apply_part_sql ::
  "(nat \<Rightarrow> bool) \<Rightarrow> string \<Rightarrow> string \<Rightarrow> request \<Rightarrow> db \<Rightarrow> outcome" where
  "apply_part_sql net ds tt req db =
     (case req of ApplyClick n s p \<Rightarrow> apply_form_sql net ds tt n s p db | _ \<Rightarrow> emit [] db)"

definition lookup_part_sql :: "(nat \<Rightarrow> bool) \<Rightarrow> string \<Rightarrow> request \<Rightarrow> db \<Rightarrow> outcome" where
  "lookup_part_sql net ds req db =
     (case req of
        LookupClick s p \<Rightarrow> lookup_form_sql net ds s p db
      | CancelClick s p \<Rightarrow> cancel_form_sql net ds s p db
      | _ \<Rightarrow> emit [] db)"

text \<open>
  Line 71 reads the count from the one row of \<^verbatim>\<open>count(*)\<close>; here the count is
  the number of rows the condition of line 69 selects.
\<close>

definition open_page_sql ::
  "nat \<Rightarrow> (nat \<Rightarrow> bool) \<Rightarrow> day \<Rightarrow> string \<Rightarrow> string \<Rightarrow> request \<Rightarrow> db \<Rightarrow> outcome" where
  "open_page_sql lim net d ds tt req db =
     (case run_query_sql (net 0) (applycount_sql ds) db of
        Inl e \<Rightarrow> abort [ApplyTitle d] e db
      | Inr counted \<Rightarrow>
          then_run
            (if length counted < lim
             then shown_first [ApplyTitle d, ApplyPrompt] (apply_part_sql net ds tt req db)
             else emit [ApplyTitle d, FullNotice] db)
            (\<lambda>db'. shown_first [LookupHeader] (lookup_part_sql net ds req db')))"

definition page_run_sql ::
  "instant list \<Rightarrow> nat \<Rightarrow> (nat \<Rightarrow> bool) \<Rightarrow> instant \<Rightarrow> instant \<Rightarrow> request \<Rightarrow> db \<Rightarrow> outcome option" where
  "page_run_sql dates lim net now ts req db =
     (case select_session dates now of
        Inl e \<Rightarrow> Some (abort [] e db)
      | Inr NoSession \<Rightarrow> Some (emit [NoLectureTitle] db)
      | Inr (NextSession d) \<Rightarrow> Some (emit [NextLectureTitle d] db)
      | Inr (OpenSession d) \<Rightarrow>
          (case (date_text d, ts_text ts) of
             (Some ds, Some tt) \<Rightarrow> Some (open_page_sql lim net d ds tt req db)
           | _ \<Rightarrow> None))"

section \<open>Quote-free requests: the page of theory Page\<close>

lemma select_session_open_mem:
  "select_session dates now = Inr (OpenSession d) \<Longrightarrow> \<exists>i\<in>set dates. d = kst_day i"
  using scan_dates_Some_mem [of None dates now]
  by (auto simp: select_session_def split: option.splits if_splits)

lemma run_query_sql_lookup:
  "quote_free s \<Longrightarrow> quote_free p \<Longrightarrow> date_text d = Some ds \<Longrightarrow>
   run_query_sql ok (lookup_sql s ds p) db = run_query ok (check_secret s d p) db"
  by (simp add: run_query_sql_def run_query_def lookup_sql_exec quote_free_def)

lemma run_query_sql_check:
  "quote_free s \<Longrightarrow> date_text d = Some ds \<Longrightarrow>
   run_query_sql ok (check_sql s ds) db = run_query ok (check_apply s d) db"
  by (simp add: run_query_sql_def run_query_def check_sql_exec quote_free_def)

lemma run_query_sql_count:
  "date_text d = Some ds \<Longrightarrow>
   map_sum id length (run_query_sql ok (applycount_sql ds) db) = run_query ok (applycount d) db"
  using applycount_sql_exec [of d ds db]
  by (auto simp: run_query_sql_def run_query_def split: option.splits)

lemma exec_write_cancel: "exec_write (cancel_sql (show_nat a)) db = Some (cancel_update a db)"
proof -
  have "insert_rows (cancel_sql (show_nat a)) db = None"
    using show_nat_safe [of a]
    unfolding insert_rows_def cancel_sql_def append_assoc
    by (simp add: sql_lex_simps insert_header_def)
  then show ?thesis by (simp add: exec_write_def cancel_sql_exec)
qed

lemma run_tx_sql_cancel: "run_tx_sql ok (cancel_sql (show_nat a)) db = run_tx ok (cancel_update a) db"
  by (simp add: run_tx_sql_def run_tx_def exec_write_cancel)

lemma run_tx_sql_apply:
  "quote_free n \<Longrightarrow> quote_free s \<Longrightarrow> quote_free p \<Longrightarrow> date_text d = Some ds \<Longrightarrow> ts_text ts = Some tt \<Longrightarrow>
   run_tx_sql ok (apply_sql n s ds tt p) db = run_tx ok (apply_insert n s d ts p) db"
  by (simp add: run_tx_sql_def run_tx_def exec_write_def apply_sql_exec)

lemma apply_form_sql_refines:
  assumes "quote_free n" "quote_free s" "quote_free p" "date_text d = Some ds" "ts_text ts = Some tt"
  shows "apply_form_sql net ds tt n s p db = apply_form net d ts n s p db"
  unfolding apply_form_sql_def apply_form_def run_query_sql_check [OF assms(2,4)] run_tx_sql_apply [OF assms] ..

lemma lookup_form_sql_refines:
  assumes "quote_free s" "quote_free p" "date_text d = Some ds"
  shows "lookup_form_sql net ds s p db = lookup_form net d s p db"
  unfolding lookup_form_sql_def lookup_form_def run_query_sql_lookup [OF assms] ..

lemma cancel_form_sql_refines:
  assumes "quote_free s" "quote_free p" "date_text d = Some ds"
  shows "cancel_form_sql net ds s p db = cancel_form net d s p db"
  unfolding cancel_form_sql_def cancel_form_def run_query_sql_lookup [OF assms] run_tx_sql_cancel ..

lemma open_page_sql_refines:
  assumes "safe_request req" "date_text d = Some ds" "ts_text ts = Some tt"
  shows "open_page_sql lim net d ds tt req db = open_page lim net d ts req db"
proof -
  have parts: "apply_part_sql net ds tt req db' = apply_part net d ts req db'"
    "lookup_part_sql net ds req db' = lookup_part net d req db'" for db'
    using assms apply_form_sql_refines lookup_form_sql_refines cancel_form_sql_refines
    by (cases req; simp add: apply_part_sql_def apply_part_def lookup_part_sql_def lookup_part_def)+
  have "run_query (net 0) (applycount d) db = map_sum id length (run_query_sql (net 0) (applycount_sql ds) db)"
    using run_query_sql_count [OF assms(2)] by simp
  then show ?thesis
    by (cases "run_query_sql (net 0) (applycount_sql ds) db")
       (simp_all add: open_page_sql_def open_page_def parts)
qed

text \<open>
  C34: For a request without a quote character, at a registration instant
  and on a schedule whose days Python can write, the run that sends the
  statement texts equals the run of theory \<open>Page\<close>, so the properties proved
  there for quote-free requests hold of the real statements.
\<close>

theorem page_run_sql_refines:
  "safe_request req \<Longrightarrow> ts_text ts \<noteq> None \<Longrightarrow> (\<forall>i\<in>set dates. date_text (kst_day i) \<noteq> None) \<Longrightarrow>
   page_run_sql dates lim net now ts req db = Some (page_run dates lim net now ts req db)"
proof -
  assume safe: "safe_request req" and ts: "ts_text ts \<noteq> None"
    and days: "\<forall>i\<in>set dates. date_text (kst_day i) \<noteq> None"
  show ?thesis
  proof (cases "select_session dates now")
    case (Inl e)
    then show ?thesis by (simp add: page_run_sql_def page_run_def)
  next
    case (Inr st)
    show ?thesis
    proof (cases st)
      case (OpenSession d)
      with Inr select_session_open_mem [of dates now d] days obtain ds where ds: "date_text d = Some ds"
        by fastforce
      from ts obtain tt where tt: "ts_text ts = Some tt" by blast
      from Inr OpenSession show ?thesis
        by (simp add: page_run_sql_def page_run_def ds tt open_page_sql_refines [OF safe ds tt])
    qed (use Inr in \<open>simp_all add: page_run_sql_def page_run_def\<close>)
  qed
qed

section \<open>Inputs with a quote\<close>

lemma injected_sid_format: "check_format (''x'' @ [sq] @ ''OR 1=1--'') p = None \<longleftrightarrow> 4 \<le> length p"
  by (simp add: check_format_def)

text \<open>
  C35: The name field (line 75, no length bound) can add a second tuple to the
  insert of line 93. With the name \<^verbatim>\<open>A','s','d','t','0000'),('B\<close> built from
  the student's own ID, the session's date text and any valid timestamp
  text, a registration for a student with no active row passes the duplicate
  check, reports success, and leaves two active rows for that student and
  day: the guarantee of C1 fails for inputs with a quote, and repeating the
  tuple the same way exceeds any limit (C2).
\<close>

theorem apply_form_sql_injection:
  "quote_free s \<Longrightarrow> quote_free p \<Longrightarrow> check_format s p = None \<Longrightarrow> p \<noteq> [] \<Longrightarrow> check_apply s d db = [] \<Longrightarrow>
   date_text d = Some ds \<Longrightarrow> ts_text ts = Some tt \<Longrightarrow>
   \<exists>db'. apply_form_sql (\<lambda>_. True) ds tt
       (''A'' @ [sq] @ '','' @ [sq] @ s @ [sq] @ '','' @ [sq] @ ds @ [sq] @ '','' @ [sq] @ tt @
        [sq] @ '','' @ [sq] @ ''0000'' @ [sq] @ ''),('' @ [sq] @ ''B'') s p db = emit [ApplyDone] db' \<and>
     length (check_apply s d db') = 2"
proof -
  assume q: "quote_free s" "quote_free p" and fmt: "check_format s p = None" "p \<noteq> []"
    and none: "check_apply s d db = []" and dt: "date_text d = Some ds" and tt: "ts_text ts = Some tt"
  have "s \<noteq> []" using fmt(1) by (auto simp: check_format_def)
  moreover have "run_query_sql True (check_sql s ds) db = Inr []"
    using run_query_sql_check [OF q(1) dt, of True db] none by (simp add: run_query_def)
  moreover have "length (check_apply s d (db\<lparr>rows := rows db @
      [new_row (next_aid db) ''A'' s d ts ''0000'', new_row (Suc (next_aid db)) ''B'' s d ts p],
      next_aid := next_aid db + 2\<rparr>)) = 2"
    using none by (simp add: check_apply_def new_row_def)
  ultimately show ?thesis
    using fmt apply_sql_injected_exec [OF q dt tt, of db]
    by (simp add: apply_form_sql_def run_tx_sql_def exec_write_def) blast
qed

text \<open>
  C36: SQL injection through the student ID in the cancel form: with the
  10-character ID \<^verbatim>\<open>x'OR 1=1--\<close> and any PIN of four or more characters
  without a line break, the lookup of line 141 selects every row of the
  table and the cancel of line 148 cancels the first row, whoever it belongs
  to, and reports success; the PIN is never compared.
\<close>

theorem cancel_form_sql_injection:
  "rows db = r # rs \<Longrightarrow> 4 \<le> length p \<Longrightarrow> CHR 0x0A \<notin> set p \<Longrightarrow> date_text d = Some ds \<Longrightarrow>
   cancel_form_sql (\<lambda>_. True) ds (''x'' @ [sq] @ ''OR 1=1--'') p db = emit [CancelDone] (cancel_update (aid r) db)"
  using date_text_safe [of d ds] lookup_sql_injected_exec [of ds p db] injected_sid_format [of p]
  by (auto simp: cancel_form_sql_def run_query_sql_def run_tx_sql_def exec_write_cancel)

text \<open>
  C37: The same ID in the lookup form shows the whole table, every
  student's name and ID on every day, canceled rows included, with any PIN.
\<close>

theorem lookup_form_sql_injection:
  "rows db \<noteq> [] \<Longrightarrow> 4 \<le> length p \<Longrightarrow> CHR 0x0A \<notin> set p \<Longrightarrow> date_text d = Some ds \<Longrightarrow>
   lookup_form_sql (\<lambda>_. True) ds (''x'' @ [sq] @ ''OR 1=1--'') p db =
   emit [LookupDone, ShowTable (map lookup_cols (rows db))] db"
  using date_text_safe [of d ds] lookup_sql_injected_exec [of ds p db] injected_sid_format [of p]
  by (auto simp: lookup_form_sql_def run_query_sql_def)

section \<open>Witnesses\<close>

theorem page_run_sql_refines_witness:
  "page_run_sql date_list student_limit (\<lambda>_. True) 1678071600 1678071600
     (ApplyClick ''Hong'' ''2023-00001'' ''1234'') empty_db =
   Some (page_run date_list student_limit (\<lambda>_. True) 1678071600 1678071600
     (ApplyClick ''Hong'' ''2023-00001'' ''1234'') empty_db)"
proof (rule page_run_sql_refines)
  show "safe_request (ApplyClick ''Hong'' ''2023-00001'' ''1234'')" by (simp add: quote_free_def sq_def)
  show "ts_text 1678071600 \<noteq> None" by (simp add: sample_texts)
  have "kst_day 1678154400 = 19423" "kst_day 1678327200 = 19425" by (simp_all add: schedule_consts)
  then show "\<forall>i\<in>set date_list. date_text (kst_day i) \<noteq> None"
    by (simp add: date_list_def sample_texts)
qed

theorem apply_form_sql_injection_witness:
  "\<exists>db'. apply_form_sql (\<lambda>_. True) ''2023-03-07'' ''2023-03-06 12:00:00+09:00''
       (''A'' @ [sq] @ '','' @ [sq] @ ''2023-00001'' @ [sq] @ '','' @ [sq] @ ''2023-03-07'' @ [sq] @ '','' @ [sq] @
        ''2023-03-06 12:00:00+09:00'' @ [sq] @ '','' @ [sq] @ ''0000'' @ [sq] @ ''),('' @ [sq] @ ''B'')
       ''2023-00001'' ''1234'' empty_db = emit [ApplyDone] db' \<and>
     length (check_apply ''2023-00001'' 19423 db') = 2"
  by (rule apply_form_sql_injection [where ts = 1678071600])
     (simp_all add: quote_free_def sq_def check_format_def check_apply_def empty_db_def sample_texts)

theorem cancel_form_sql_injection_witness:
  "cancel_form_sql (\<lambda>_. True) ''2023-03-07'' (''x'' @ [sq] @ ''OR 1=1--'') ''0000''
     (apply_insert ''Hong'' ''2023-00001'' 19423 1678071600 ''1234'' empty_db) =
   emit [CancelDone] (cancel_update 1 (apply_insert ''Hong'' ''2023-00001'' 19423 1678071600 ''1234'' empty_db))"
proof -
  have "rows (apply_insert ''Hong'' ''2023-00001'' 19423 1678071600 ''1234'' empty_db) =
      [new_row 1 ''Hong'' ''2023-00001'' 19423 1678071600 ''1234'']"
    by (simp add: apply_insert_def empty_db_def)
  from cancel_form_sql_injection [OF this _ _ conjunct1 [OF sample_texts], of "''0000''"] show ?thesis
    by (simp add: new_row_def)
qed

theorem lookup_form_sql_injection_witness:
  "lookup_form_sql (\<lambda>_. True) ''2023-03-07'' (''x'' @ [sq] @ ''OR 1=1--'') ''0000''
     (cancel_update 1 (apply_insert ''Hong'' ''2023-00001'' 19423 1678071600 ''1234'' empty_db)) =
   emit [LookupDone, ShowTable [(1, ''Hong'', ''2023-00001'', 19423)]]
     (cancel_update 1 (apply_insert ''Hong'' ''2023-00001'' 19423 1678071600 ''1234'' empty_db))"
proof -
  have r: "rows (cancel_update 1 (apply_insert ''Hong'' ''2023-00001'' 19423 1678071600 ''1234'' empty_db)) =
      [(new_row 1 ''Hong'' ''2023-00001'' 19423 1678071600 ''1234'')\<lparr>canceled := True\<rparr>]"
    by (simp add: apply_insert_def cancel_update_def empty_db_def new_row_def)
  then have "rows (cancel_update 1 (apply_insert ''Hong'' ''2023-00001'' 19423 1678071600 ''1234'' empty_db)) \<noteq> []"
    by simp
  from lookup_form_sql_injection [OF this _ _ conjunct1 [OF sample_texts], of "''0000''"] r show ?thesis
    by (simp add: lookup_cols_def new_row_def)
qed

end
