(* ===== verification/Spec2Isabelle.thy ===== *)
theory Spec2Isabelle
  imports Race PageSql
begin

text \<open>
  \<^bold>\<open>Verification development of \<^verbatim>\<open>src/Offline_Attendance.py\<close>\<close>
  (repository BKMS1_2023S): a Streamlit page on which students register for
  a capacity-limited in-person lecture with name, student ID and a 4-character
  PIN, and later look up or cancel their registration with ID and PIN. The
  program is one script that Streamlit reruns on every interaction; it talks
  to a PostgreSQL table \<^verbatim>\<open>apply\<close> by SQL statements built with f-strings.

  \<^bold>\<open>Parts of the program and where they are modelled.\<close>
  \<^item> Theory \<open>Prelude\<close>: the types \<open>instant\<close> (seconds since the epoch, Python
    integers as \<open>int\<close>) and \<open>day\<close> (KST day number), the exceptions that end a
    run (\<open>py_error\<close>), and list/map/find lemmas shared by the components.
  \<^item> Theory \<open>Schedule\<close>, the session selector (lines 44--66): \<open>now_kst\<close> is the
    clock reading \<^verbatim>\<open>datetime.utcnow().astimezone(timezone_kst)\<close> on a host with a
    given UTC offset; \<open>scan_dates\<close> is the \<^verbatim>\<open>for\<close>/\<^verbatim>\<open>continue\<close>/\<^verbatim>\<open>break\<close>
    loop with the loop variable as an option (unbound before the first
    iteration); \<open>select_session\<close> is the three-way title decision, with
    \<open>NameError\<close> for an empty list; \<open>date_list\<close> and \<open>student_limit\<close> are the
    configuration constants. \<open>current_session\<close> is the specification's
    selector (section 4.1), the abstract contract the loop is compared with.
  \<^item> Theory \<open>Store\<close>, the table and what its statements compute: \<open>apply_row\<close>
    is a row, \<open>db\<close> the table as a row list in insertion order with the next
    value of the serial \<^verbatim>\<open>aid\<close>; \<open>applycount\<close> (line 69), \<open>check_apply\<close> (line
    88), \<open>check_secret\<close> (lines 121/141), \<open>apply_insert\<close> (line 93) and
    \<open>cancel_update\<close> (line 148) are the functions the statements compute for
    inputs without a quote character (\<open>quote_free\<close>); \<open>run_query\<close> and
    \<open>run_tx\<close> (lines 15--40) return \<open>Inl DBError\<close> when the connection or
    statement fails, with the table unchanged (rollback). \<open>active_regs\<close>
    abstracts the table to the specification's map from (student ID, day) to
    the active registration.
  \<^item> Theory \<open>Page\<close>, one run of the script (lines 42--152) over those
    functions: a \<open>request\<close> is the button clicked in this run and
    \<open>safe_request\<close> says its fields are quote-free; \<open>check_format\<close>,
    \<open>apply_form\<close>, \<open>lookup_form\<close> and \<open>cancel_form\<close> are the three form handlers,
    every \<^verbatim>\<open>st.error\<close> and \<^verbatim>\<open>st.success\<close> a \<open>msg\<close>; \<open>open_page\<close> is the
    open-registration branch with the capacity gate of line 71; \<open>page_run\<close>
    composes selector and page; \<open>script\<close> fixes the deployed constants and
    clock readings. A run's \<open>outcome\<close> is the messages shown, the exception
    raised if any, and the table afterwards. Whether each database call of a
    run succeeds is an input (\<open>net k\<close> for the \<open>k\<close>-th call).
  \<^item> Theory \<open>Runs\<close>: tables reachable from the empty table by runs of
    quote-free requests executed one at a time (\<open>reachable\<close>, an inductive
    set), the record lifecycle absent/active/canceled (\<open>row_status\<close>, the
    step relation \<open>lifecycle\<close>), and the frame property that rows only ever
    gain \<open>canceled = True\<close>.
  \<^item> Theory \<open>Race\<close>: concurrent runs. Each database call commits on its own
    connection, so a registration run is three atomic steps (count, duplicate
    check, insert); \<open>client_step\<close> is one of them, \<open>race_step\<close> the scheduler
    that moves any unfinished client, \<open>run_schedule\<close> one interleaving.
  \<^item> Theory \<open>Calendar\<close>, the texts of dates and times: \<open>date_text\<close> is
    \<^verbatim>\<open>i.strftime("%Y-%m-%d")\<close> of line 60 over the proleptic Gregorian calendar
    of Python's \<^verbatim>\<open>date\<close> (\<open>ymd_of_day\<close>, \<open>days_before_year\<close>), \<open>ts_text\<close> is
    \<^verbatim>\<open>str(apply_timestamp)\<close> of lines 91--93; \<open>text_date\<close> and
    \<open>text_timestamp\<close> are the database's reading of such texts.
  \<^item> Theory \<open>Sql\<close>, the statement texts: \<open>sql_lit\<close> is the f-string quoting
    \<^verbatim>\<open>'{v}'\<close>, \<open>applycount_sql\<close>, \<open>check_sql\<close>, \<open>apply_sql\<close>,
    \<open>lookup_sql\<close> and \<open>cancel_sql\<close> the statements of lines 69, 88, 93,
    121/141 and 148; \<open>literals\<close> lists the string literals the database reads.
  \<^item> Theory \<open>Query\<close>, a model of how PostgreSQL executes those texts (not
    code of the repository): a lexer, \<^verbatim>\<open>WHERE\<close> clauses of equality
    comparisons under AND/OR, \<open>select_rows\<close>, \<open>update_cancel\<close> and
    \<open>insert_rows\<close> (one or more value tuples). A text outside these statement
    forms gives \<open>None\<close>, read as an error; only texts inside them are used by
    the theorems.
  \<^item> Theory \<open>PageSql\<close>: the run of theory \<open>Page\<close> with every database call
    sending its statement text to that model (\<open>page_run_sql\<close>).
  \<^item> This theory: a registration through its whole lifecycle across runs.

  \<^bold>\<open>What the lemmas show.\<close>
  \<^item> The statements mean what theory \<open>Store\<close> says for quote-free inputs: each
    text computes exactly its function on every table (C33), and the run
    that sends the texts equals the run of theory \<open>Page\<close> for quote-free
    requests (C34). The properties of the page below are stated for such
    requests and so hold of the statements actually sent.
  \<^item> Store invariants (\<open>aids_fresh\<close>, \<open>active_unique\<close>, \<open>within_limit\<close>) hold
    from the empty table and are kept by insert (after an empty duplicate
    check, under the limit) and by cancel; hence in every table reachable by
    one-at-a-time quote-free runs the duplicate check returns at most one row
    and the per-day count is within the limit (C1, C2); a full day accepts no
    insert (C24).
  \<^item> Concurrency breaks both: two interleaved registrations for one student
    both insert (C3), two registrations for the last place both insert (C4),
    and cancelling after such a race leaves the student registered (C26). A
    client running alone performs exactly the page's registration (C25), so
    the step model is the code split at its database calls.
  \<^item> Injection breaks them too: a name with a second value tuple makes one
    registration leave two active rows for one student (C35); the
    10-character ID \<^verbatim>\<open>x'OR 1=1--\<close> passes the form checks and comments out the
    date and PIN conditions (C28), so the cancel form cancels the first row
    of the table (C36) and the lookup form shows every row (C37).
  \<^item> Form handlers on every branch: success, duplicate, second registration
    refused (C5, C6); cancellation idempotent and a refinement of the abstract
    map (C7, C8); lookup read-only (C11); exceptions leave the table unchanged
    (C10); the length checks under the widget bounds (C12); the count query
    runs before any field validation, so a failing database pre-empts the
    missing-field message (C27).
  \<^item> Lifecycle: each run moves every registration along absent, active,
    canceled and only flips \<open>canceled\<close> (C9); the specification's scenario
    holds for every student, name and PIN (C38).
  \<^item> Selector: agrees with the specification's selector except when a session
    starts exactly at \<open>now\<close> (C13, C18); past, not-yet-open, inclusive 24 h
    boundary and the bounds of an open day (C14--C17); \<open>NameError\<close> on an
    empty list (C19); on a host east of UTC registration opens late and
    closes late by the host's offset (C20).
  \<^item> Store refinement and round trip: insert and cancel against the abstract
    map, insert then lookup (C21--C23).
  \<^item> Texts: for quote-free inputs the database reads back exactly the
    interpolated values (C29--C31); the database reads the date text of a day
    back as that day and no two days share a text (C32); the timestamp text
    is read back as the instant (\<open>ts_text_roundtrip\<close>).

  \<^bold>\<open>Bounds and fuel.\<close> Every loop of the program is structural (the scan over
  \<^verbatim>\<open>date_list\<close>, the list operations of the queries), so every definition is a
  total \<^theory_text>\<open>fun\<close> or \<^theory_text>\<open>definition\<close> and no fuel is needed; the interleavings
  are finite schedules. The calendar walk \<open>year_split\<close> is a \<^theory_text>\<open>function\<close>
  whose termination is by the measure of the remaining days; it first skips
  whole 400-year cycles of 146097 days so that evaluating a day of 2023 takes
  a few dozen steps. The lexers are \<^theory_text>\<open>function\<close>s terminating by the length
  of the remaining text. Python integers are unbounded and modelled as
  \<open>int\<close> and \<open>nat\<close>; no width matters. Instants are whole seconds.

  \<^bold>\<open>Not modelled.\<close> Rendering (widget layout, \<^verbatim>\<open>st.set_page_config\<close>, the
  unused \<^verbatim>\<open>st_aggrid\<close> import) beyond the list of messages; the connection
  setup from \<^verbatim>\<open>st.secrets\<close> (lines 9--10) beyond the success flag of each call;
  the exact exception class that escapes the helpers. Injected texts outside
  the statement forms of theory \<open>Query\<close> (several statements separated by
  \<^verbatim>\<open>;\<close>, other commands) are not evaluated; the theorems about the page's
  properties assume quote-free requests, and those about injection use texts
  inside the model. \<^verbatim>\<open>iloc[0]\<close> is the first selected row in insertion order
  (PostgreSQL without \<^verbatim>\<open>ORDER BY\<close> does not fix an order). Python's
  \<^verbatim>\<open>len\<close> counts code points; strings here are lists of characters, each
  standing for one code point.
\<close>

section \<open>A registration through its lifecycle\<close>

lemma open_page_apply_emit:
  "applycount d db < lim \<Longrightarrow> apply_form (\<lambda>_. True) d ts n s p db = emit ms db' \<Longrightarrow>
   set ms \<subseteq> set (shown (open_page lim (\<lambda>_. True) d ts (ApplyClick n s p) db)) \<and>
   store (open_page lim (\<lambda>_. True) d ts (ApplyClick n s p) db) = db'"
  by (auto simp: open_page_def run_query_def apply_part_def lookup_part_def outcome_defs)

lemma open_page_lookup_emit:
  "lookup_form (\<lambda>_. True) d s p db = emit ms db' \<Longrightarrow>
   set ms \<subseteq> set (shown (open_page lim (\<lambda>_. True) d ts (LookupClick s p) db)) \<and>
   store (open_page lim (\<lambda>_. True) d ts (LookupClick s p) db) = db'"
  by (auto simp: open_page_def run_query_def apply_part_def lookup_part_def outcome_defs)

lemma open_page_cancel_emit:
  "cancel_form (\<lambda>_. True) d s p db = emit ms db' \<Longrightarrow>
   set ms \<subseteq> set (shown (open_page lim (\<lambda>_. True) d ts (CancelClick s p) db)) \<and>
   store (open_page lim (\<lambda>_. True) d ts (CancelClick s p) db) = db'"
  by (auto simp: open_page_def run_query_def apply_part_def lookup_part_def outcome_defs)

text \<open>
  C38: The lifecycle of the specification's scenario (section 8), for any
  student: on an open day with room for two more registrations, with a
  working database, quote-free fields of the right lengths, a table that
  satisfies the store invariants and holds no active registration of the
  student for the day, and a second PIN different from the student's, the
  registration succeeds, the same registration again is refused as a
  duplicate without a write, a lookup with the other PIN finds nothing, the
  cancellation with the right PIN succeeds and leaves the new record
  canceled, and a later lookup with the right PIN finds nothing.
\<close>

theorem registration_lifecycle:
  assumes sel: "select_session dates now = Inr (OpenSession d)"
    and qf: "quote_free n" "quote_free s" "quote_free p" "quote_free p'"
    and fields: "n \<noteq> []" "check_format s p = None" "check_format s p' = None" "p' \<noteq> p"
    and inv: "aids_fresh db" "active_unique db" "check_apply s d db = []"
    and room: "Suc (applycount d db) < lim"
  shows "let run = page_run dates lim (\<lambda>_. True) now ts;
       r1 = run (ApplyClick n s p) db; r2 = run (ApplyClick n s p) (store r1);
       r3 = run (LookupClick s p') (store r2); r4 = run (CancelClick s p) (store r3);
       r5 = run (LookupClick s p) (store r4)
     in ApplyDone \<in> set (shown r1) \<and> ErrDuplicate \<in> set (shown r2) \<and> store r2 = store r1 \<and>
        ErrNoRecord \<in> set (shown r3) \<and> store r3 = store r1 \<and> CancelDone \<in> set (shown r4) \<and>
        row_status (store r4) (next_aid db) = Canceled \<and> ErrNoRecord \<in> set (shown r5)"
proof -
  define db1 where "db1 = apply_insert n s d ts p db"
  define db2 where "db2 = cancel_update (next_aid db) db1"
  have sp: "s \<noteq> []" "p \<noteq> []" "p' \<noteq> []" using fields by (auto simp: check_format_def split: if_splits)
  have run: "page_run dates lim (\<lambda>_. True) now ts req x = open_page lim (\<lambda>_. True) d ts req x" for req x
    using sel by (simp add: page_run_def)
  have c1: "applycount d db1 < lim" using room by (simp add: db1_def applycount_apply_insert)
  have row: "check_secret s d p db1 = [new_row (next_aid db) n s d ts p]"
    using check_secret_of_check_apply [OF inv(3)] by (simp add: db1_def check_secret_apply_insert)
  have f1: "apply_form (\<lambda>_. True) d ts n s p db = emit [ApplyDone] db1"
    using fields sp inv(3) by (simp add: apply_form_def run_query_def run_tx_def db1_def)
  have f2: "apply_form (\<lambda>_. True) d ts n s p db1 = emit [ErrDuplicate] db1"
    using fields sp by (simp add: apply_form_def run_query_def db1_def check_apply_apply_insert)
  have f3: "lookup_form (\<lambda>_. True) d s p' db1 = emit [ErrNoRecord] db1"
    using fields sp check_secret_of_check_apply [OF inv(3)]
    by (simp add: lookup_form_def run_query_def db1_def check_secret_apply_insert)
  have f4: "cancel_form (\<lambda>_. True) d s p db1 = emit [CancelDone] db2"
    using fields sp row by (simp add: cancel_form_def run_query_def run_tx_def db2_def)
  have inv1: "aids_fresh db1" "active_unique db1"
    using inv by (simp_all add: db1_def aids_fresh_apply_insert active_unique_apply_insert)
  have "new_row (next_aid db) n s d ts p \<in> set (check_secret s d p db1)" by (simp add: row)
  from check_apply_cancel_found [OF inv1 this] have "check_apply s d db2 = []" by (simp add: db2_def)
  then have f5: "lookup_form (\<lambda>_. True) d s p db2 = emit [ErrNoRecord] db2"
    using fields sp check_secret_of_check_apply by (simp add: lookup_form_def run_query_def)
  have st: "row_status db2 (next_aid db) = Canceled"
    using inv(1) by (simp add: db2_def db1_def row_status_cancel_update row_status_apply_insert)
  have c0: "applycount d db < lim" using room by simp
  note o1 = open_page_apply_emit [OF c0 f1] and o2 = open_page_apply_emit [OF c1 f2]
    and o3 = open_page_lookup_emit [OF f3, where lim = lim and ts = ts]
    and o4 = open_page_cancel_emit [OF f4, where lim = lim and ts = ts]
    and o5 = open_page_lookup_emit [OF f5, where lim = lim and ts = ts]
  show ?thesis using o1 o2 o3 o4 o5 st by (auto simp: run Let_def)
qed

theorem registration_lifecycle_witness:
  "let run = page_run date_list 2 (\<lambda>_. True) 1678071600 1678071600;
       r1 = run (ApplyClick ''Hong'' ''2023-00001'' ''1234'') empty_db;
       r2 = run (ApplyClick ''Hong'' ''2023-00001'' ''1234'') (store r1);
       r3 = run (LookupClick ''2023-00001'' ''9999'') (store r2);
       r4 = run (CancelClick ''2023-00001'' ''1234'') (store r3);
       r5 = run (LookupClick ''2023-00001'' ''1234'') (store r4)
     in ApplyDone \<in> set (shown r1) \<and> ErrDuplicate \<in> set (shown r2) \<and> store r2 = store r1 \<and>
        ErrNoRecord \<in> set (shown r3) \<and> store r3 = store r1 \<and> CancelDone \<in> set (shown r4) \<and>
        row_status (store r4) (next_aid empty_db) = Canceled \<and> ErrNoRecord \<in> set (shown r5)"
  by (rule registration_lifecycle [where d = 19423])
     (simp_all add: select_session_def schedule_consts quote_free_def sq_def check_format_def
       aids_fresh_def active_unique_def active_rows_def check_apply_def applycount_def empty_db_def)

end
